theory Spec2Isabelle
  imports Main "HOL-Library.Word" "HOL-Library.Monad_Syntax"
begin

section \<open>Values of the Go program\<close>

text \<open>
  The program is \<^verbatim>\<open>example.go\<close>: one \<^verbatim>\<open>main\<close>, one \<^verbatim>\<open>init\<close>, a per-VM helper
  \<^verbatim>\<open>createVM\<close> and the builders \<^verbatim>\<open>buildID\<close>, \<^verbatim>\<open>buildNATrule\<close>, \<^verbatim>\<open>buildNICparams\<close>,
  \<^verbatim>\<open>buildVMparams\<close>, \<^verbatim>\<open>buildVhdURI\<close>.

  A Go pointer \<^verbatim>\<open>*T\<close> is a \<open>T option\<close> (\<open>None\<close> is \<^verbatim>\<open>nil\<close>); dereferencing \<open>None\<close> is a
  panic, written out wherever the source dereferences. A pointer to a slice is a
  \<open>list option\<close>. An \<^verbatim>\<open>int32\<close> is a \<open>32 word\<close>, a Go \<^verbatim>\<open>int\<close> used as an index is an
  \<open>int\<close>. The string-typed enumerations of the SDK are strings, with \<open>''''\<close> the zero
  value. An \<^verbatim>\<open>error\<close> is the text its \<^verbatim>\<open>Error()\<close> method gives; \<^verbatim>\<open>nil\<close> is \<open>None\<close>.

  Of every SDK struct only the fields the source sets or reads are kept; a field the
  source leaves out of a literal has Go's zero value. Record fields carry a short
  prefix of their struct, since HOL field names are global; an embedded pointer such
  as \<^verbatim>\<open>*LoadBalancerPropertiesFormat\<close> is a field named after its type. The constants
  of the SDK's enumerations (\<^verbatim>\<open>network.Static\<close>, \<^verbatim>\<open>compute.StandardDS1\<close>, ...) carry the
  package as a prefix and the SDK's string as value; no property below depends on
  these strings.

  A pointer to a variable (\<^verbatim>\<open>&westus\<close>, \<^verbatim>\<open>&pip\<close>, \<^verbatim>\<open>&vmName\<close>) is the value that the
  variable holds when the literal is built: no statement of the program writes through
  such a pointer or assigns the variable while the literal is in use.
\<close>

type_synonym int32 = "32 word"

datatype error = Err (Error: string)

subsection \<open>package resources\<close>

record Group =
  grp_Location :: "string option"

record GenericResource =
  gr_Name :: "string option"
  gr_Type :: "string option"

record ResourceListResult =
  rlr_Value :: "GenericResource list option"

subsection \<open>package storage\<close>

record Sku =
  sku_Name :: string

record AccountCreateParameters =
  acp_Sku :: "Sku option"
  acp_Kind :: string
  acp_Location :: "string option"
  acp_AccountPropertiesCreateParameters :: "unit option"

definition storage_StandardLRS :: string where
  "storage_StandardLRS = ''Standard_LRS''"

definition storage_Storage :: string where
  "storage_Storage = ''Storage''"

subsection \<open>package network\<close>

definition network_Static :: string where
  "network_Static = ''Static''"

definition network_Dynamic :: string where
  "network_Dynamic = ''Dynamic''"

definition network_ProbeProtocolHTTP :: string where
  "network_ProbeProtocolHTTP = ''Http''"

definition network_TransportProtocolTCP :: string where
  "network_TransportProtocolTCP = ''Tcp''"

definition network_Default :: string where
  "network_Default = ''Default''"

record SubResource =
  sr_ID :: "string option"

record PublicIPAddressDNSSettings =
  dns_DomainNameLabel :: "string option"

record PublicIPAddressPropertiesFormat =
  pipf_PublicIPAllocationMethod :: string
  pipf_DNSSettings :: "PublicIPAddressDNSSettings option"
  pipf_IPAddress :: "string option"

record PublicIPAddress =
  pip_ID :: "string option"
  pip_Location :: "string option"
  pip_PublicIPAddressPropertiesFormat :: "PublicIPAddressPropertiesFormat option"

record FrontendIPConfigurationPropertiesFormat =
  ficf_PrivateIPAllocationMethod :: string
  ficf_PublicIPAddress :: "PublicIPAddress option"

record FrontendIPConfiguration =
  fic_Name :: "string option"
  fic_FrontendIPConfigurationPropertiesFormat ::
    "FrontendIPConfigurationPropertiesFormat option"

record BackendAddressPool =
  bap_ID :: "string option"
  bap_Name :: "string option"

record ProbePropertiesFormat =
  prf_Protocol :: string
  prf_Port :: "int32 option"
  prf_IntervalInSeconds :: "int32 option"
  prf_NumberOfProbes :: "int32 option"
  prf_RequestPath :: "string option"

record Probe =
  prb_Name :: "string option"
  prb_ProbePropertiesFormat :: "ProbePropertiesFormat option"

record LoadBalancingRulePropertiesFormat =
  lbrf_FrontendIPConfiguration :: "SubResource option"
  lbrf_BackendAddressPool :: "SubResource option"
  lbrf_Probe :: "SubResource option"
  lbrf_Protocol :: string
  lbrf_LoadDistribution :: string
  lbrf_FrontendPort :: "int32 option"
  lbrf_BackendPort :: "int32 option"
  lbrf_IdleTimeoutInMinutes :: "int32 option"
  lbrf_EnableFloatingIP :: "bool option"

record LoadBalancingRule =
  lbr_Name :: "string option"
  lbr_LoadBalancingRulePropertiesFormat :: "LoadBalancingRulePropertiesFormat option"

record InboundNatRulePropertiesFormat =
  inrf_FrontendIPConfiguration :: "SubResource option"
  inrf_Protocol :: string
  inrf_FrontendPort :: "int32 option"
  inrf_BackendPort :: "int32 option"
  inrf_IdleTimeoutInMinutes :: "int32 option"
  inrf_EnableFloatingIP :: "bool option"

record InboundNatRule =
  inr_ID :: "string option"
  inr_Name :: "string option"
  inr_InboundNatRulePropertiesFormat :: "InboundNatRulePropertiesFormat option"

record LoadBalancerPropertiesFormat =
  lbf_FrontendIPConfigurations :: "FrontendIPConfiguration list option"
  lbf_BackendAddressPools :: "BackendAddressPool list option"
  lbf_LoadBalancingRules :: "LoadBalancingRule list option"
  lbf_Probes :: "Probe list option"
  lbf_InboundNatRules :: "InboundNatRule list option"

record LoadBalancer =
  lb_Location :: "string option"
  lb_LoadBalancerPropertiesFormat :: "LoadBalancerPropertiesFormat option"

record AddressSpace =
  as_AddressPrefixes :: "string list option"

record VirtualNetworkPropertiesFormat =
  vnf_AddressSpace :: "AddressSpace option"

record VirtualNetwork =
  vn_Location :: "string option"
  vn_VirtualNetworkPropertiesFormat :: "VirtualNetworkPropertiesFormat option"

record SubnetPropertiesFormat =
  snf_AddressPrefix :: "string option"

record Subnet =
  sn_ID :: "string option"
  sn_SubnetPropertiesFormat :: "SubnetPropertiesFormat option"

record InterfaceIPConfigurationPropertiesFormat =
  ipcf_Subnet :: "Subnet option"
  ipcf_LoadBalancerBackendAddressPools :: "BackendAddressPool list option"
  ipcf_LoadBalancerInboundNatRules :: "InboundNatRule list option"

record InterfaceIPConfiguration =
  ipc_Name :: "string option"
  ipc_InterfaceIPConfigurationPropertiesFormat ::
    "InterfaceIPConfigurationPropertiesFormat option"

record InterfacePropertiesFormat =
  iff_IPConfigurations :: "InterfaceIPConfiguration list option"

record Interface =
  if_ID :: "string option"
  if_Location :: "string option"
  if_InterfacePropertiesFormat :: "InterfacePropertiesFormat option"

subsection \<open>package compute\<close>

definition compute_StandardDS1 :: string where
  "compute_StandardDS1 = ''Standard_DS1''"

definition compute_None :: string where
  "compute_None = ''None''"

definition compute_FromImage :: string where
  "compute_FromImage = ''fromImage''"

record AvailabilitySet =
  avs_ID :: "string option"
  avs_Location :: "string option"

record OSProfile =
  osp_ComputerName :: "string option"
  osp_AdminUsername :: "string option"
  osp_AdminPassword :: "string option"

record HardwareProfile =
  hwp_VMSize :: string

record ImageReference =
  img_Publisher :: "string option"
  img_Offer :: "string option"
  img_Sku :: "string option"
  img_Version :: "string option"

record VirtualHardDisk =
  vhd_URI :: "string option"

record OSDisk =
  osd_Name :: "string option"
  osd_Caching :: string
  osd_CreateOption :: string
  osd_Vhd :: "VirtualHardDisk option"

record StorageProfile =
  stp_ImageReference :: "ImageReference option"
  stp_OsDisk :: "OSDisk option"

record NetworkInterfaceReferenceProperties =
  nirp_Primary :: "bool option"

record NetworkInterfaceReference =
  nir_ID :: "string option"
  nir_NetworkInterfaceReferenceProperties ::
    "NetworkInterfaceReferenceProperties option"

record NetworkProfile =
  np_NetworkInterfaces :: "NetworkInterfaceReference list option"

record compute_SubResource =
  csr_ID :: "string option"

record VirtualMachineProperties =
  vmp_OsProfile :: "OSProfile option"
  vmp_HardwareProfile :: "HardwareProfile option"
  vmp_StorageProfile :: "StorageProfile option"
  vmp_NetworkProfile :: "NetworkProfile option"
  vmp_AvailabilitySet :: "compute_SubResource option"

record VirtualMachine =
  vm_Location :: "string option"
  vm_VirtualMachineProperties :: "VirtualMachineProperties option"

section \<open>Package-level variables\<close>

text \<open>
  The \<^verbatim>\<open>var\<close> blocks at the top of the file. All of them are mutable package-level
  variables of Go, so they are the fields of one record that the program reads. The
  nine client types of the SDK all embed the same management client; the model keeps
  its subscription id, its authorizer and its user-agent string.
\<close>

datatype BearerAuthorizer = BearerAuthorizer string

record client =
  cl_SubscriptionID :: string
  cl_Authorizer :: "BearerAuthorizer option"
  cl_UserAgent :: string

record pkg =
  groupName :: string
  westus :: string
  vNetName :: string
  subnetName :: string
  ipName :: string
  frontEndIPConfigName :: string
  backEndAddressPoolName :: string
  probeName :: string
  loadBalancerName :: string
  storageAccountName :: string
  vmName1 :: string
  vmName2 :: string
  groupClient :: client
  lbClient :: client
  vNetClient :: client
  subnetClient :: client
  pipClient :: client
  interfaceClient :: client
  availSetClient :: client
  accountClient :: client
  vmClient :: client
  subscriptionID :: string
  authorizer :: "BearerAuthorizer option"

definition zero_client :: client where
  "zero_client = \<lparr>cl_SubscriptionID = [], cl_Authorizer = None, cl_UserAgent = []\<rparr>"

text \<open>The package state after the variable initialisers, before \<^verbatim>\<open>init\<close> runs.\<close>

definition pkg_declared :: pkg where
  "pkg_declared =
    \<lparr>groupName = ''your-azure-sample-group'',
     westus = ''westus'',
     vNetName = ''vNet'',
     subnetName = ''subnet'',
     ipName = ''pip'',
     frontEndIPConfigName = ''fip'',
     backEndAddressPoolName = ''backEndPool'',
     probeName = ''probe'',
     loadBalancerName = ''lb'',
     storageAccountName = ''golangrocksonazure'',
     vmName1 = ''Web1'',
     vmName2 = ''Web2'',
     groupClient = zero_client,
     lbClient = zero_client,
     vNetClient = zero_client,
     subnetClient = zero_client,
     pipClient = zero_client,
     interfaceClient = zero_client,
     availSetClient = zero_client,
     accountClient = zero_client,
     vmClient = zero_client,
     subscriptionID = [],
     authorizer = None\<rparr>"

section \<open>Builders\<close>

text \<open>
  \<^verbatim>\<open>fmt.Sprintf\<close> with \<^verbatim>\<open>%s\<close> verbs and string arguments is the concatenation of the
  pieces of the format string and the arguments, in order. A parameter that shadows a
  package-level variable carries a prime.
\<close>

definition buildID :: "pkg \<Rightarrow> string \<Rightarrow> string \<Rightarrow> string \<Rightarrow> string" where
  "buildID g subscriptionID' subType subTypeName =
     ''/subscriptions/'' @ subscriptionID' @
     ''/resourceGroups/'' @ groupName g @
     ''/providers/Microsoft.Network/loadBalancers/'' @ loadBalancerName g @
     ''/'' @ subType @
     ''/'' @ subTypeName"

definition buildNATrule :: "pkg \<Rightarrow> string \<Rightarrow> string \<Rightarrow> int32 \<Rightarrow> InboundNatRule" where
  "buildNATrule g natRuleName subscriptionID' frontEndPort =
    \<lparr>inr_ID = None,
     inr_Name = Some natRuleName,
     inr_InboundNatRulePropertiesFormat = Some
       \<lparr>inrf_FrontendIPConfiguration = Some
          \<lparr>sr_ID = Some (buildID g subscriptionID' ''frontendIPConfigurations''
                          (frontEndIPConfigName g))\<rparr>,
        inrf_Protocol = network_TransportProtocolTCP,
        inrf_FrontendPort = Some frontEndPort,
        inrf_BackendPort = Some 22,
        inrf_IdleTimeoutInMinutes = Some 4,
        inrf_EnableFloatingIP = Some False\<rparr>\<rparr>"

text \<open>
  Indexing a Go slice with an \<^verbatim>\<open>int\<close>: out of range (negative included) is a run-time
  panic, here \<open>None\<close>.
\<close>

definition at_index :: "'a list \<Rightarrow> int \<Rightarrow> 'a option" where
  "at_index xs i = (if 0 \<le> i \<and> i < int (length xs) then Some (xs ! nat i) else None)"

text \<open>
  \<^verbatim>\<open>buildNICparams\<close> reads \<^verbatim>\<open>lb.BackendAddressPools\<close> and \<^verbatim>\<open>lb.InboundNatRules\<close> through
  the embedded \<^verbatim>\<open>*LoadBalancerPropertiesFormat\<close>, dereferences both slice pointers and
  indexes them, with no check. \<open>None\<close> is the panic.
\<close>

definition buildNICparams :: "pkg \<Rightarrow> string option \<Rightarrow> LoadBalancer \<Rightarrow> int \<Rightarrow> Interface option" where
  "buildNICparams g subnetID lb natRule = do {
     lbf \<leftarrow> lb_LoadBalancerPropertiesFormat lb;
     pools \<leftarrow> lbf_BackendAddressPools lbf;
     pool \<leftarrow> at_index pools 0;
     lbf' \<leftarrow> lb_LoadBalancerPropertiesFormat lb;
     rules \<leftarrow> lbf_InboundNatRules lbf';
     rule \<leftarrow> at_index rules natRule;
     Some
      \<lparr>if_ID = None,
       if_Location = Some (westus g),
       if_InterfacePropertiesFormat = Some
        \<lparr>iff_IPConfigurations = Some
          [\<lparr>ipc_Name = Some ''pipConfig'',
            ipc_InterfaceIPConfigurationPropertiesFormat = Some
             \<lparr>ipcf_Subnet = Some \<lparr>sn_ID = subnetID, sn_SubnetPropertiesFormat = None\<rparr>,
              ipcf_LoadBalancerBackendAddressPools = Some
                [\<lparr>bap_ID = bap_ID pool, bap_Name = None\<rparr>],
              ipcf_LoadBalancerInboundNatRules = Some
                [\<lparr>inr_ID = inr_ID rule, inr_Name = None,
                  inr_InboundNatRulePropertiesFormat = None\<rparr>]\<rparr>\<rparr>]\<rparr>\<rparr>
   }"

definition buildVhdURI :: "string \<Rightarrow> string \<Rightarrow> string" where
  "buildVhdURI storageAccountName' vmName =
     ''https://'' @ storageAccountName' @
     ''.blob.core.windows.net/golangcontainer/'' @ vmName @ ''.vhd''"

definition buildVMparams :: "pkg \<Rightarrow> string \<Rightarrow> string option \<Rightarrow> string option \<Rightarrow> VirtualMachine" where
  "buildVMparams g vmName nicID availSetID =
    \<lparr>vm_Location = Some (westus g),
     vm_VirtualMachineProperties = Some
      \<lparr>vmp_OsProfile = Some
         \<lparr>osp_ComputerName = Some vmName,
          osp_AdminUsername = Some ''notAdmin'',
          osp_AdminPassword = Some ''Pa$$w0rd1975''\<rparr>,
       vmp_HardwareProfile = Some \<lparr>hwp_VMSize = compute_StandardDS1\<rparr>,
       vmp_StorageProfile = Some
         \<lparr>stp_ImageReference = Some
            \<lparr>img_Publisher = Some ''Canonical'',
             img_Offer = Some ''UbuntuServer'',
             img_Sku = Some ''16.04.0-LTS'',
             img_Version = Some ''latest''\<rparr>,
          stp_OsDisk = Some
            \<lparr>osd_Name = Some ''osDisk'',
             osd_Caching = compute_None,
             osd_CreateOption = compute_FromImage,
             osd_Vhd = Some
               \<lparr>vhd_URI = Some (buildVhdURI (storageAccountName g) vmName)\<rparr>\<rparr>\<rparr>,
       vmp_NetworkProfile = Some
         \<lparr>np_NetworkInterfaces = Some
            [\<lparr>nir_ID = nicID,
              nir_NetworkInterfaceReferenceProperties = Some
                \<lparr>nirp_Primary = Some True\<rparr>\<rparr>]\<rparr>,
       vmp_AvailabilitySet = Some \<lparr>csr_ID = availSetID\<rparr>\<rparr>\<rparr>"

section \<open>Console output\<close>

definition nl :: string where
  "nl = [CHR 0x0A]"

definition sq :: string where
  "sq = [CHR 0x27]"

function fmt_nat :: "nat \<Rightarrow> string" where
  "fmt_nat n =
     (if n < 10 then [char_of (48 + n)]
      else fmt_nat (n div 10) @ [char_of (48 + n mod 10)])"
  by pat_completeness auto
termination
  by (relation "measure id") auto

text \<open>The verb \<^verbatim>\<open>%v\<close> on an \<^verbatim>\<open>int32\<close>: its signed value in decimal.\<close>

definition fmt_int32 :: "int32 \<Rightarrow> string" where
  "fmt_int32 x = (if sint x < 0 then ''-'' @ fmt_nat (nat (- sint x)) else fmt_nat (nat (sint x)))"

section \<open>The process and the remote service\<close>

text \<open>
  A request of the workflow to the outside: each SDK method the source calls, with the
  arguments the source passes (the \<^verbatim>\<open>cancel\<close> channel, always \<^verbatim>\<open>nil\<close>, is left out),
  the receive on the storage account's error channel, and the read of a line of input.
\<close>

datatype call =
    Groups_CreateOrUpdate string Group
  | Accounts_Create string string AccountCreateParameters
  | Accounts_Create_await
  | PublicIPAddresses_CreateOrUpdate string string PublicIPAddress
  | LoadBalancers_CreateOrUpdate string string LoadBalancer
  | VirtualNetworks_CreateOrUpdate string string VirtualNetwork
  | Subnets_CreateOrUpdate string string string Subnet
  | Subnets_Get string string string string
  | AvailabilitySets_CreateOrUpdate string string AvailabilitySet
  | Interfaces_CreateOrUpdate string string Interface
  | VirtualMachines_CreateOrUpdate string string VirtualMachine
  | Groups_ListResources string string string "int32 option"
  | Scanln
  | Groups_Delete string

text \<open>
  An event of the trace is a request with the error that answers it, \<open>None\<close> for
  \<^verbatim>\<open>nil\<close>. For the creation of the storage account that is the error of the service,
  which the workflow does not receive there: it receives it at \<open>Accounts_Create_await\<close>,
  whose event carries the same error. \<^verbatim>\<open>Scanln\<close>, whose results the source drops, has
  \<open>None\<close>.
\<close>

type_synonym event = "call \<times> error option"

text \<open>
  The remote service is a parameter: one function per SDK method, from the receiving
  client, the arguments and the service's state \<open>'r\<close> to the values the workflow reads
  and the next state. A method whose first result the source discards with \<^verbatim>\<open>_\<close> gives
  its error only. The SDK's asynchronous methods send one result and one error on two
  buffered channels; the model applies the method where the source calls it and hands
  the pair over where the source receives.
\<close>

record 'r remote =
  GroupsClient_CreateOrUpdate ::
    "client \<Rightarrow> string \<Rightarrow> Group \<Rightarrow> 'r \<Rightarrow> error option \<times> 'r"
  AccountsClient_Create ::
    "client \<Rightarrow> string \<Rightarrow> string \<Rightarrow> AccountCreateParameters \<Rightarrow> 'r \<Rightarrow> error option \<times> 'r"
  PublicIPAddressesClient_CreateOrUpdate ::
    "client \<Rightarrow> string \<Rightarrow> string \<Rightarrow> PublicIPAddress \<Rightarrow> 'r
       \<Rightarrow> (PublicIPAddress \<times> error option) \<times> 'r"
  LoadBalancersClient_CreateOrUpdate ::
    "client \<Rightarrow> string \<Rightarrow> string \<Rightarrow> LoadBalancer \<Rightarrow> 'r
       \<Rightarrow> (LoadBalancer \<times> error option) \<times> 'r"
  VirtualNetworksClient_CreateOrUpdate ::
    "client \<Rightarrow> string \<Rightarrow> string \<Rightarrow> VirtualNetwork \<Rightarrow> 'r \<Rightarrow> error option \<times> 'r"
  SubnetsClient_CreateOrUpdate ::
    "client \<Rightarrow> string \<Rightarrow> string \<Rightarrow> string \<Rightarrow> Subnet \<Rightarrow> 'r \<Rightarrow> error option \<times> 'r"
  SubnetsClient_Get ::
    "client \<Rightarrow> string \<Rightarrow> string \<Rightarrow> string \<Rightarrow> string \<Rightarrow> 'r
       \<Rightarrow> (Subnet \<times> error option) \<times> 'r"
  AvailabilitySetsClient_CreateOrUpdate ::
    "client \<Rightarrow> string \<Rightarrow> string \<Rightarrow> AvailabilitySet \<Rightarrow> 'r
       \<Rightarrow> (AvailabilitySet \<times> error option) \<times> 'r"
  InterfacesClient_CreateOrUpdate ::
    "client \<Rightarrow> string \<Rightarrow> string \<Rightarrow> Interface \<Rightarrow> 'r
       \<Rightarrow> (Interface \<times> error option) \<times> 'r"
  VirtualMachinesClient_CreateOrUpdate ::
    "client \<Rightarrow> string \<Rightarrow> string \<Rightarrow> VirtualMachine \<Rightarrow> 'r \<Rightarrow> error option \<times> 'r"
  GroupsClient_ListResources ::
    "client \<Rightarrow> string \<Rightarrow> string \<Rightarrow> string \<Rightarrow> int32 option \<Rightarrow> 'r
       \<Rightarrow> (ResourceListResult \<times> error option) \<times> 'r"
  GroupsClient_Delete ::
    "client \<Rightarrow> string \<Rightarrow> 'r \<Rightarrow> error option \<times> 'r"

text \<open>
  The state of the process: the service's state, the trace of requests, what was
  written to standard output (one entry per \<^verbatim>\<open>fmt.Print*\<close> call), the package-level
  variables, and the log of package-level locations written, in order.
\<close>

record 'r world =
  rstate :: 'r
  calls :: "event list"
  stdout :: "string list"
  globals :: pkg
  writes :: "string list"

text \<open>
  How a run ends early: \<^verbatim>\<open>os.Exit\<close> with a status, or a run-time panic. A statement
  is a function from the state to either such an end or a value, and the next state.
\<close>

datatype outcome = Exit nat | Panic

type_synonym ('r, 'a) prog = "'r world \<Rightarrow> (outcome + 'a) \<times> 'r world"

definition ret :: "'a \<Rightarrow> ('r, 'a) prog" where
  "ret x w = (Inr x, w)"

definition bnd :: "('r, 'a) prog \<Rightarrow> ('a \<Rightarrow> ('r, 'b) prog) \<Rightarrow> ('r, 'b) prog" where
  "bnd m f w = (case m w of (Inl e, w') \<Rightarrow> (Inl e, w') | (Inr x, w') \<Rightarrow> f x w')"

definition thn :: "('r, 'a) prog \<Rightarrow> ('r, 'b) prog \<Rightarrow> ('r, 'b) prog" where
  "thn m n = bnd m (\<lambda>_. n)"

definition panic :: "('r, 'a) prog" where
  "panic w = (Inl Panic, w)"

definition os_Exit :: "nat \<Rightarrow> ('r, 'a) prog" where
  "os_Exit n w = (Inl (Exit n), w)"

definition Print :: "string \<Rightarrow> ('r, unit) prog" where
  "Print s w = (Inr (), w\<lparr>stdout := stdout w @ [s]\<rparr>)"

definition Println :: "string \<Rightarrow> ('r, unit) prog" where
  "Println s = Print (s @ nl)"

definition read_globals :: "('r, pkg) prog" where
  "read_globals w = (Inr (globals w), w)"

text \<open>An assignment to a package-level location \<open>x\<close>.\<close>

definition assign :: "string \<Rightarrow> (pkg \<Rightarrow> pkg) \<Rightarrow> ('r, unit) prog" where
  "assign x upd w = (Inr (), w\<lparr>globals := upd (globals w), writes := writes w @ [x]\<rparr>)"

text \<open>A call whose result and error the source receives at once.\<close>

definition invoke :: "call \<Rightarrow> ('r \<Rightarrow> ('a \<times> error option) \<times> 'r) \<Rightarrow> ('r, 'a \<times> error option) prog" where
  "invoke c f w =
     (case f (rstate w) of
        ((x, err), s') \<Rightarrow> (Inr (x, err), w\<lparr>rstate := s', calls := calls w @ [(c, err)]\<rparr>))"

definition invoke_err :: "call \<Rightarrow> ('r \<Rightarrow> error option \<times> 'r) \<Rightarrow> ('r, error option) prog" where
  "invoke_err c f w =
     (case f (rstate w) of
        (err, s') \<Rightarrow> (Inr err, w\<lparr>rstate := s', calls := calls w @ [(c, err)]\<rparr>))"

text \<open>
  A call whose error channel the source keeps for later: the value is the error that
  the channel will deliver. The trace records the request with the service's answer;
  the workflow goes on without looking at it.
\<close>

definition start :: "call \<Rightarrow> ('r \<Rightarrow> error option \<times> 'r) \<Rightarrow> ('r, error option) prog" where
  "start c f w =
     (case f (rstate w) of
        (err, s') \<Rightarrow> (Inr err, w\<lparr>rstate := s', calls := calls w @ [(c, err)]\<rparr>))"

definition await :: "call \<Rightarrow> error option \<Rightarrow> ('r, error option) prog" where
  "await c err w = (Inr err, w\<lparr>calls := calls w @ [(c, err)]\<rparr>)"

definition fmt_Scanln :: "('r, unit) prog" where
  "fmt_Scanln w = (Inr (), w\<lparr>calls := calls w @ [(Scanln, None)]\<rparr>)"

definition onErrorFail :: "error option \<Rightarrow> string \<Rightarrow> ('r, unit) prog" where
  "onErrorFail err message =
     (case err of
        None \<Rightarrow> ret ()
      | Some e \<Rightarrow> thn (Print (message @ '': '' @ Error e)) (os_Exit 1))"

text \<open>A sequence of statements, run in order until one ends the process.\<close>

fun block :: "('r, unit) prog list \<Rightarrow> ('r, unit) prog" where
  "block [] = ret ()"
| "block (m # ms) = thn m (block ms)"

section \<open>createVM\<close>

text \<open>
  The arguments of the last \<^verbatim>\<open>Printf\<close> of \<^verbatim>\<open>createVM\<close>, dereferenced in the order of
  the source; \<open>None\<close> when one of the dereferences or the indexing panics.
\<close>

definition connect_message ::
    "string \<Rightarrow> VirtualMachine \<Rightarrow> string option \<Rightarrow> LoadBalancer \<Rightarrow> int \<Rightarrow> string option" where
  "connect_message vmName vm ipAddress lb natRule = do {
     vmp \<leftarrow> vm_VirtualMachineProperties vm;
     osp \<leftarrow> vmp_OsProfile vmp;
     adminUsername \<leftarrow> osp_AdminUsername osp;
     ip \<leftarrow> ipAddress;
     lbf \<leftarrow> lb_LoadBalancerPropertiesFormat lb;
     rules \<leftarrow> lbf_InboundNatRules lbf;
     rule \<leftarrow> at_index rules natRule;
     inrf \<leftarrow> inr_InboundNatRulePropertiesFormat rule;
     frontendPort \<leftarrow> inrf_FrontendPort inrf;
     vmp' \<leftarrow> vm_VirtualMachineProperties vm;
     osp' \<leftarrow> vmp_OsProfile vmp';
     adminPassword \<leftarrow> osp_AdminPassword osp';
     Some (''Now you can connect to '' @ sq @ vmName @ sq @ '' via '' @ sq @ ''ssh '' @
           adminUsername @ ''@'' @ ip @ '' -p '' @ fmt_int32 frontendPort @ sq @
           '' with password '' @ sq @ adminPassword @ sq @ nl)
   }"

definition createVM ::
    "'r remote \<Rightarrow> string \<Rightarrow> string option \<Rightarrow> string option \<Rightarrow> string option \<Rightarrow> LoadBalancer
       \<Rightarrow> int \<Rightarrow> ('r, error option) prog" where
  "createVM R vmName subnetID availSetID ipAddress lb natRule =
     bnd read_globals (\<lambda>g.
     let nicName = ''nic-'' @ vmName in
     thn (Print (''Starting to create NIC for '' @ sq @ vmName @ sq @ '' machine'' @ nl))
     (case buildNICparams g subnetID lb natRule of
        None \<Rightarrow> panic
      | Some nic \<Rightarrow>
     bnd (invoke (Interfaces_CreateOrUpdate (groupName g) nicName nic)
            (InterfacesClient_CreateOrUpdate R (interfaceClient g) (groupName g) nicName nic))
       (\<lambda>(nic', err).
     case err of
       Some e \<Rightarrow> thn (Println ''Create NIC failed'') (ret (Some e))
     | None \<Rightarrow>
     thn (Println ''NIC created'')
    (thn (Print (''Starting to create machine '' @ sq @ vmName @ sq @ nl))
    (let vm = buildVMparams g vmName (if_ID nic') availSetID in
     bnd (invoke_err (VirtualMachines_CreateOrUpdate (groupName g) vmName vm)
            (VirtualMachinesClient_CreateOrUpdate R (vmClient g) (groupName g) vmName vm))
       (\<lambda>err.
     case err of
       Some e \<Rightarrow> thn (Println ''Create VM failed'') (ret (Some e))
     | None \<Rightarrow>
     thn (Println ''VM created'')
    (case connect_message vmName vm ipAddress lb natRule of
       None \<Rightarrow> panic
     | Some s \<Rightarrow> thn (Print s) (ret None))))))))"

section \<open>main\<close>

text \<open>
  The struct literals that \<^verbatim>\<open>main\<close> assembles inline, under the names of the local
  variables that hold them (\<open>main_pip\<close>, \<open>main_lb\<close>, \<open>main_subnet\<close> and \<open>main_availSet\<close> are
  the locals \<^verbatim>\<open>pip\<close>, \<^verbatim>\<open>lb\<close>, \<^verbatim>\<open>subnet\<close> and \<^verbatim>\<open>availSet\<close> before the service's answer
  overwrites them). The load balancer's literal is built after \<^verbatim>\<open>pip = <-pipChan\<close>, so
  its \<^verbatim>\<open>&pip\<close> is the public IP address that the service returned.
\<close>

definition resourceGroupParameters :: "pkg \<Rightarrow> Group" where
  "resourceGroupParameters g = \<lparr>grp_Location = Some (westus g)\<rparr>"

definition accountParameters :: "pkg \<Rightarrow> AccountCreateParameters" where
  "accountParameters g =
    \<lparr>acp_Sku = Some \<lparr>sku_Name = storage_StandardLRS\<rparr>,
     acp_Kind = storage_Storage,
     acp_Location = Some (westus g),
     acp_AccountPropertiesCreateParameters = Some ()\<rparr>"

definition main_pip :: "pkg \<Rightarrow> PublicIPAddress" where
  "main_pip g =
    \<lparr>pip_ID = None,
     pip_Location = Some (westus g),
     pip_PublicIPAddressPropertiesFormat = Some
       \<lparr>pipf_PublicIPAllocationMethod = network_Static,
        pipf_DNSSettings = Some \<lparr>dns_DomainNameLabel = Some ''domain-name''\<rparr>,
        pipf_IPAddress = None\<rparr>\<rparr>"

definition main_lb :: "pkg \<Rightarrow> PublicIPAddress \<Rightarrow> LoadBalancer" where
  "main_lb g pip =
    \<lparr>lb_Location = Some (westus g),
     lb_LoadBalancerPropertiesFormat = Some
      \<lparr>lbf_FrontendIPConfigurations = Some
         [\<lparr>fic_Name = Some (frontEndIPConfigName g),
           fic_FrontendIPConfigurationPropertiesFormat = Some
             \<lparr>ficf_PrivateIPAllocationMethod = network_Dynamic,
              ficf_PublicIPAddress = Some pip\<rparr>\<rparr>],
       lbf_BackendAddressPools = Some
         [\<lparr>bap_ID = None, bap_Name = Some (backEndAddressPoolName g)\<rparr>],
       lbf_LoadBalancingRules = Some
         [\<lparr>lbr_Name = Some ''lbRule'',
           lbr_LoadBalancingRulePropertiesFormat = Some
             \<lparr>lbrf_FrontendIPConfiguration = Some
                \<lparr>sr_ID = Some (buildID g (subscriptionID g) ''frontendIPConfigurations''
                                (frontEndIPConfigName g))\<rparr>,
              lbrf_BackendAddressPool = Some
                \<lparr>sr_ID = Some (buildID g (subscriptionID g) ''backendAddressPools''
                                (backEndAddressPoolName g))\<rparr>,
              lbrf_Probe = Some
                \<lparr>sr_ID = Some (buildID g (subscriptionID g) ''probes'' (probeName g))\<rparr>,
              lbrf_Protocol = network_TransportProtocolTCP,
              lbrf_LoadDistribution = network_Default,
              lbrf_FrontendPort = Some 80,
              lbrf_BackendPort = Some 80,
              lbrf_IdleTimeoutInMinutes = Some 4,
              lbrf_EnableFloatingIP = Some False\<rparr>\<rparr>],
       lbf_Probes = Some
         [\<lparr>prb_Name = Some (probeName g),
           prb_ProbePropertiesFormat = Some
             \<lparr>prf_Protocol = network_ProbeProtocolHTTP,
              prf_Port = Some 80,
              prf_IntervalInSeconds = Some 15,
              prf_NumberOfProbes = Some 4,
              prf_RequestPath = Some ''healthprobe.aspx''\<rparr>\<rparr>],
       lbf_InboundNatRules = Some
         [buildNATrule g ''natRule1'' (subscriptionID g) 21,
          buildNATrule g ''natRule2'' (subscriptionID g) 23]\<rparr>\<rparr>"

definition vNetParameters :: "pkg \<Rightarrow> VirtualNetwork" where
  "vNetParameters g =
    \<lparr>vn_Location = Some (westus g),
     vn_VirtualNetworkPropertiesFormat = Some
       \<lparr>vnf_AddressSpace = Some \<lparr>as_AddressPrefixes = Some [''10.0.0.0/16'']\<rparr>\<rparr>\<rparr>"

definition main_subnet :: Subnet where
  "main_subnet =
    \<lparr>sn_ID = None,
     sn_SubnetPropertiesFormat = Some \<lparr>snf_AddressPrefix = Some ''10.0.0.0/24''\<rparr>\<rparr>"

definition main_availSet :: "pkg \<Rightarrow> AvailabilitySet" where
  "main_availSet g = \<lparr>avs_ID = None, avs_Location = Some (westus g)\<rparr>"

text \<open>
  The loop over \<^verbatim>\<open>*list.Value\<close>: one \<^verbatim>\<open>Printf\<close> per resource, dereferencing its name and
  its type.
\<close>

fun print_resources :: "GenericResource list \<Rightarrow> ('r, unit) prog" where
  "print_resources [] = ret ()"
| "print_resources (r # rs) =
     (case gr_Name r of
        None \<Rightarrow> panic
      | Some name \<Rightarrow>
     (case gr_Type r of
        None \<Rightarrow> panic
      | Some type \<Rightarrow>
     thn (Print (''----------------'' @ nl @ ''Name: '' @ name @ nl @
                 ''Type: '' @ type @ nl))
         (print_resources rs)))"

text \<open>
  \<^verbatim>\<open>main\<close>. The fourth argument of each \<^verbatim>\<open>createVM\<close> call, \<^verbatim>\<open>pip.IPAddress\<close>, reads through
  the embedded \<^verbatim>\<open>*PublicIPAddressPropertiesFormat\<close> before the call. Returning from
  \<^verbatim>\<open>main\<close> ends the process with status 0.
\<close>

definition main :: "'r remote \<Rightarrow> ('r, unit) prog" where
  "main R =
     bnd read_globals (\<lambda>g. block
    [Println ''Creating resource group'',
     bnd (invoke_err (Groups_CreateOrUpdate (groupName g) (resourceGroupParameters g))
            (GroupsClient_CreateOrUpdate R (groupClient g) (groupName g) (resourceGroupParameters g)))
         (\<lambda>err. onErrorFail err ''CreateOrUpdate failed''),
     Println ''Starting to create storage account...'',
     bnd (start (Accounts_Create (groupName g) (storageAccountName g) (accountParameters g))
            (AccountsClient_Create R (accountClient g) (groupName g) (storageAccountName g) (accountParameters g)))
         (\<lambda>errStorageAccount. block
    [Println ''Starting to create public IP address...'',
     bnd (invoke (PublicIPAddresses_CreateOrUpdate (groupName g) (ipName g) (main_pip g))
            (PublicIPAddressesClient_CreateOrUpdate R (pipClient g) (groupName g) (ipName g) (main_pip g)))
         (\<lambda>(pip, errPIP). block
    [onErrorFail errPIP ''CreateOrUpdate Public IP failed'',
     Println ''... public IP created'',
     Println ''Starting to create load balancer...'',
     bnd (invoke (LoadBalancers_CreateOrUpdate (groupName g) (loadBalancerName g) (main_lb g pip))
            (LoadBalancersClient_CreateOrUpdate R (lbClient g) (groupName g) (loadBalancerName g) (main_lb g pip)))
         (\<lambda>(lb, errLB). block
    [onErrorFail errLB ''CreateOrUpdate Load Balancer failed'',
     Println ''... load balancer created'',
     Println ''Starting to create virtual network...'',
     bnd (invoke_err (VirtualNetworks_CreateOrUpdate (groupName g) (vNetName g) (vNetParameters g))
            (VirtualNetworksClient_CreateOrUpdate R (vNetClient g) (groupName g) (vNetName g) (vNetParameters g)))
         (\<lambda>errVnet. onErrorFail errVnet ''CreateOrUpdate Virtual Network failed''),
     Println ''... virtual network created'',
     Println ''Starting to create subnet...'',
     bnd (invoke_err (Subnets_CreateOrUpdate (groupName g) (vNetName g) (subnetName g) main_subnet)
            (SubnetsClient_CreateOrUpdate R (subnetClient g) (groupName g) (vNetName g) (subnetName g) main_subnet))
         (\<lambda>errSubnet. onErrorFail errSubnet ''CreateOrUpdate Subnet failed''),
     Println ''... subnet created'',
     bnd (invoke (Subnets_Get (groupName g) (vNetName g) (subnetName g) [])
            (SubnetsClient_Get R (subnetClient g) (groupName g) (vNetName g) (subnetName g) []))
         (\<lambda>(subnet, err). block
    [onErrorFail err ''Get Subnet failed'',
     Println ''Creating availability set'',
     bnd (invoke (AvailabilitySets_CreateOrUpdate (groupName g) ''availSet'' (main_availSet g))
            (AvailabilitySetsClient_CreateOrUpdate R (availSetClient g) (groupName g) ''availSet'' (main_availSet g)))
         (\<lambda>(availSet, err). block
    [onErrorFail err ''CreateOrUpdate failed'',
     bnd (await Accounts_Create_await errStorageAccount)
         (\<lambda>err. onErrorFail err ''Create Storage Account failed''),
     Println ''... storage account created'',
     Print (''Creating virtual machine '' @ sq @ vmName1 g @ sq @ nl),
     (case pip_PublicIPAddressPropertiesFormat pip of
         None \<Rightarrow> panic
       | Some pipf \<Rightarrow>
           bnd (createVM R (vmName1 g) (sn_ID subnet) (avs_ID availSet) (pipf_IPAddress pipf) lb 0)
             (\<lambda>err. onErrorFail err ''createVM failed'')),
     Print (''Creating virtual machine '' @ sq @ vmName2 g @ sq @ nl),
     (case pip_PublicIPAddressPropertiesFormat pip of
         None \<Rightarrow> panic
       | Some pipf \<Rightarrow>
           bnd (createVM R (vmName2 g) (sn_ID subnet) (avs_ID availSet) (pipf_IPAddress pipf) lb 1)
             (\<lambda>err. onErrorFail err ''createVM failed'')),
     Println ''Listing resources in resource group'',
     bnd (invoke (Groups_ListResources (groupName g) [] [] None)
            (GroupsClient_ListResources R (groupClient g) (groupName g) [] [] None))
         (\<lambda>(list, err). block
    [onErrorFail err ''ListResources failed'',
     Print (''Resources in '' @ sq @ groupName g @ sq @ '' resource group'' @ nl),
     (case rlr_Value list of None \<Rightarrow> panic | Some rs \<Rightarrow> print_resources rs),
     Println ''Your load balancer and virtual machines have been created.'',
     Print ''Press enter to delete the resources created in this sample...'',
     fmt_Scanln,
     Println ''Starting to delete the resource group...'',
     bnd (invoke_err (Groups_Delete (groupName g))
            (GroupsClient_Delete R (groupClient g) (groupName g)))
         (\<lambda>errGroup. onErrorFail errGroup ''Delete resource group failed''),
     Println ''... resource group deleted'',
     Println ''Done!''])])])])])])])"

section \<open>init and createClients\<close>

text \<open>
  What \<^verbatim>\<open>init\<close> takes from outside the file. The helpers \<^verbatim>\<open>utils.GetAuthorizer\<close> and
  \<^verbatim>\<open>utils.GetEnvVarOrExit\<close> either return, or end the process themselves after writing
  to standard output (as \<^verbatim>\<open>GetEnvVarOrExit\<close> does for a missing variable): \<open>Inr\<close> is
  what they return, \<open>Inl\<close> what they wrote and the exit status. \<^verbatim>\<open>utils.GetCommit\<close>
  returns a string. Each of the nine \<^verbatim>\<open>New...Client\<close> constructors of the SDK sets a
  user-agent string of its own, given here per constructor; \<open>NewClient\<close> is the
  constructor of the given name. \<open>AddToUserAgent\<close> is the SDK method of that name, which
  appends a non-empty extension after a space.
\<close>

record env =
  utils_GetAuthorizer :: "(string list \<times> nat) + (BearerAuthorizer option \<times> error option)"
  utils_GetEnvVarOrExit :: "string \<Rightarrow> (string list \<times> nat) + string"
  utils_GetCommit :: string
  sdk_UserAgent :: "string \<Rightarrow> string"

definition library_exit :: "string list \<Rightarrow> nat \<Rightarrow> ('r, 'a) prog" where
  "library_exit out n w = (Inl (Exit n), w\<lparr>stdout := stdout w @ out\<rparr>)"

definition NewClient :: "env \<Rightarrow> string \<Rightarrow> string \<Rightarrow> client" where
  "NewClient E constructor subscriptionID' =
    \<lparr>cl_SubscriptionID = subscriptionID', cl_Authorizer = None,
     cl_UserAgent = sdk_UserAgent E constructor\<rparr>"

definition AddToUserAgent :: "string \<Rightarrow> client \<Rightarrow> client" where
  "AddToUserAgent extension c =
     (if extension = [] then c
      else c\<lparr>cl_UserAgent := cl_UserAgent c @ '' '' @ extension\<rparr>)"

definition createClients :: "env \<Rightarrow> string \<Rightarrow> BearerAuthorizer option \<Rightarrow> ('r, unit) prog" where
  "createClients E subscriptionID' authorizer' =
    (let sampleUA = ''sample/0006/'' @ utils_GetCommit E in
     block
      [assign ''groupClient''
         (groupClient_update (\<lambda>_. NewClient E ''resources.NewGroupsClient'' subscriptionID')),
       assign ''groupClient.Authorizer'' (groupClient_update (cl_Authorizer_update (\<lambda>_. authorizer'))),
       assign ''groupClient.Client.UserAgent'' (groupClient_update (AddToUserAgent sampleUA)),
       assign ''lbClient''
         (lbClient_update (\<lambda>_. NewClient E ''network.NewLoadBalancersClient'' subscriptionID')),
       assign ''lbClient.Authorizer'' (lbClient_update (cl_Authorizer_update (\<lambda>_. authorizer'))),
       assign ''lbClient.Client.UserAgent'' (lbClient_update (AddToUserAgent sampleUA)),
       assign ''vNetClient''
         (vNetClient_update (\<lambda>_. NewClient E ''network.NewVirtualNetworksClient'' subscriptionID')),
       assign ''vNetClient.Authorizer'' (vNetClient_update (cl_Authorizer_update (\<lambda>_. authorizer'))),
       assign ''vNetClient.Client.UserAgent'' (vNetClient_update (AddToUserAgent sampleUA)),
       assign ''subnetClient''
         (subnetClient_update (\<lambda>_. NewClient E ''network.NewSubnetsClient'' subscriptionID')),
       assign ''subnetClient.Authorizer'' (subnetClient_update (cl_Authorizer_update (\<lambda>_. authorizer'))),
       assign ''subnetClient.Client.UserAgent'' (subnetClient_update (AddToUserAgent sampleUA)),
       assign ''pipClient''
         (pipClient_update (\<lambda>_. NewClient E ''network.NewPublicIPAddressesClient'' subscriptionID')),
       assign ''pipClient.Authorizer'' (pipClient_update (cl_Authorizer_update (\<lambda>_. authorizer'))),
       assign ''pipClient.Client.UserAgent'' (pipClient_update (AddToUserAgent sampleUA)),
       assign ''interfaceClient''
         (interfaceClient_update (\<lambda>_. NewClient E ''network.NewInterfacesClient'' subscriptionID')),
       assign ''interfaceClient.Authorizer'' (interfaceClient_update (cl_Authorizer_update (\<lambda>_. authorizer'))),
       assign ''interfaceClient.Client.UserAgent'' (interfaceClient_update (AddToUserAgent sampleUA)),
       assign ''availSetClient''
         (availSetClient_update (\<lambda>_. NewClient E ''compute.NewAvailabilitySetsClient'' subscriptionID')),
       assign ''availSetClient.Authorizer'' (availSetClient_update (cl_Authorizer_update (\<lambda>_. authorizer'))),
       assign ''availSetClient.Client.UserAgent'' (availSetClient_update (AddToUserAgent sampleUA)),
       assign ''accountClient''
         (accountClient_update (\<lambda>_. NewClient E ''storage.NewAccountsClient'' subscriptionID')),
       assign ''accountClient.Authorizer'' (accountClient_update (cl_Authorizer_update (\<lambda>_. authorizer'))),
       assign ''accountClient.Client.UserAgent'' (accountClient_update (AddToUserAgent sampleUA)),
       assign ''vmClient''
         (vmClient_update (\<lambda>_. NewClient E ''compute.NewVirtualMachinesClient'' subscriptionID')),
       assign ''vmClient.Authorizer'' (vmClient_update (cl_Authorizer_update (\<lambda>_. authorizer'))),
       assign ''vmClient.Client.UserAgent'' (vmClient_update (AddToUserAgent sampleUA))])"

text \<open>
  \<^verbatim>\<open>init\<close>. Its \<^verbatim>\<open>authorizer, err := ...\<close> declares a local \<^verbatim>\<open>authorizer\<close>; the
  package-level variable of that name is not assigned.
\<close>

definition init :: "env \<Rightarrow> ('r, unit) prog" where
  "init E =
     (case utils_GetAuthorizer E of
        Inl (out, n) \<Rightarrow> library_exit out n
      | Inr (authorizer', err) \<Rightarrow>
     thn (onErrorFail err ''GetAuthorizer failed'')
    (case utils_GetEnvVarOrExit E ''AZURE_SUBSCRIPTION_ID'' of
       Inl (out, n) \<Rightarrow> library_exit out n
     | Inr v \<Rightarrow>
     thn (assign ''subscriptionID'' (subscriptionID_update (\<lambda>_. v)))
    (bnd read_globals (\<lambda>g.
     createClients E (subscriptionID g) authorizer'))))"

text \<open>The process: the package initialisers, then \<^verbatim>\<open>init\<close>, then \<^verbatim>\<open>main\<close>.\<close>

definition process_start :: "'r \<Rightarrow> 'r world" where
  "process_start s =
    \<lparr>rstate = s, calls = [], stdout = [], globals = pkg_declared, writes = []\<rparr>"

definition run :: "env \<Rightarrow> 'r remote \<Rightarrow> 'r \<Rightarrow> (outcome + unit) \<times> 'r world" where
  "run E R s = thn (init E) (main R) (process_start s)"

section \<open>Notions used to state the properties\<close>

text \<open>The segments of a path: the pieces between its slashes.\<close>

fun path_segments :: "string \<Rightarrow> string list" where
  "path_segments [] = [[]]"
| "path_segments (c # cs) =
     (if c = CHR ''/'' then [] # path_segments cs
      else (case path_segments cs of
              [] \<Rightarrow> [[c]]
            | s # ss \<Rightarrow> (c # s) # ss))"

text \<open>
  What the loop of \<^verbatim>\<open>main\<close> over the listed resources prints, up to the first resource
  it panics on, and whether it gets through the list.
\<close>

fun resource_lines :: "GenericResource list \<Rightarrow> string list" where
  "resource_lines [] = []"
| "resource_lines (r # rs) =
     (case gr_Name r of
        None \<Rightarrow> []
      | Some name \<Rightarrow>
     (case gr_Type r of
        None \<Rightarrow> []
      | Some type \<Rightarrow>
        (''----------------'' @ nl @ ''Name: '' @ name @ nl @ ''Type: '' @ type @ nl)
          # resource_lines rs))"

definition resources_ok :: "GenericResource list \<Rightarrow> bool" where
  "resources_ok rs = list_all (\<lambda>r. gr_Name r \<noteq> None \<and> gr_Type r \<noteq> None) rs"

text \<open>No request of a trace was answered with an error.\<close>

definition no_failure :: "event list \<Rightarrow> bool" where
  "no_failure evs = list_all (\<lambda>ev. snd ev = None) evs"

text \<open>
  The message that \<^verbatim>\<open>main\<close> passes to \<^verbatim>\<open>onErrorFail\<close> for the error of each request (the
  two requests of \<^verbatim>\<open>createVM\<close> reach \<^verbatim>\<open>main\<close> as the error that \<^verbatim>\<open>createVM\<close> returns).
\<close>

fun message_of :: "call \<Rightarrow> string" where
  "message_of (Groups_CreateOrUpdate _ _) = ''CreateOrUpdate failed''"
| "message_of (Accounts_Create _ _ _) = ''Create Storage Account failed''"
| "message_of Accounts_Create_await = ''Create Storage Account failed''"
| "message_of (PublicIPAddresses_CreateOrUpdate _ _ _) = ''CreateOrUpdate Public IP failed''"
| "message_of (LoadBalancers_CreateOrUpdate _ _ _) = ''CreateOrUpdate Load Balancer failed''"
| "message_of (VirtualNetworks_CreateOrUpdate _ _ _) = ''CreateOrUpdate Virtual Network failed''"
| "message_of (Subnets_CreateOrUpdate _ _ _ _) = ''CreateOrUpdate Subnet failed''"
| "message_of (Subnets_Get _ _ _ _) = ''Get Subnet failed''"
| "message_of (AvailabilitySets_CreateOrUpdate _ _ _) = ''CreateOrUpdate failed''"
| "message_of (Interfaces_CreateOrUpdate _ _ _) = ''createVM failed''"
| "message_of (VirtualMachines_CreateOrUpdate _ _ _) = ''createVM failed''"
| "message_of (Groups_ListResources _ _ _ _) = ''ListResources failed''"
| "message_of Scanln = []"
| "message_of (Groups_Delete _) = ''Delete resource group failed''"

text \<open>
  The request whose error the workflow does not receive where it makes the request:
  the creation of the storage account.
\<close>

fun is_start :: "call \<Rightarrow> bool" where
  "is_start (Accounts_Create _ _ _) = True"
| "is_start _ = False"

text \<open>
  No error of a trace has reached the workflow: every request other than the creation
  of the storage account was answered with no error.
\<close>

definition no_received_failure :: "event list \<Rightarrow> bool" where
  "no_received_failure evs = list_all (\<lambda>ev. is_start (fst ev) \<or> snd ev = None) evs"

text \<open>
  A run stopped at a failed request: the failed request is the last of the trace, no
  error had reached the workflow before it, the process ended through \<^verbatim>\<open>os.Exit(1)\<close>,
  and the last thing written is the message of that step, a colon and a space, and the
  error's text.
\<close>

definition stopped_at_failure :: "(outcome + unit) \<times> 'r world \<Rightarrow> bool" where
  "stopped_at_failure rw =
     (fst rw = Inl (Exit 1) \<and>
      calls (snd rw) \<noteq> [] \<and>
      no_received_failure (butlast (calls (snd rw))) \<and>
      \<not> is_start (fst (last (calls (snd rw)))) \<and>
      stdout (snd rw) \<noteq> [] \<and>
      (case snd (last (calls (snd rw))) of
         None \<Rightarrow> False
       | Some e \<Rightarrow>
           last (stdout (snd rw)) =
             message_of (fst (last (calls (snd rw)))) @ '': '' @ Error e))"

text \<open>A run that met no failed request: it returned or panicked, and did not exit.\<close>

definition ran_without_failure :: "(outcome + unit) \<times> 'r world \<Rightarrow> bool" where
  "ran_without_failure rw =
     (no_failure (calls (snd rw)) \<and> (fst rw = Inr () \<or> fst rw = Inl Panic))"

text \<open>
  The package-level locations that \<^verbatim>\<open>init\<close> and \<^verbatim>\<open>createClients\<close> write, in the order of
  their assignments: the subscription id, then for each client handle the variable,
  its \<^verbatim>\<open>Authorizer\<close> field and its user-agent string.
\<close>

definition package_locations :: "string list" where
  "package_locations =
    [''subscriptionID'', ''groupClient'', ''groupClient.Authorizer'',
     ''groupClient.Client.UserAgent'', ''lbClient'', ''lbClient.Authorizer'',
     ''lbClient.Client.UserAgent'', ''vNetClient'', ''vNetClient.Authorizer'',
     ''vNetClient.Client.UserAgent'', ''subnetClient'', ''subnetClient.Authorizer'',
     ''subnetClient.Client.UserAgent'', ''pipClient'', ''pipClient.Authorizer'',
     ''pipClient.Client.UserAgent'', ''interfaceClient'', ''interfaceClient.Authorizer'',
     ''interfaceClient.Client.UserAgent'', ''availSetClient'',
     ''availSetClient.Authorizer'', ''availSetClient.Client.UserAgent'', ''accountClient'',
     ''accountClient.Authorizer'', ''accountClient.Client.UserAgent'', ''vmClient'',
     ''vmClient.Authorizer'', ''vmClient.Client.UserAgent'']"

text \<open>
  The value that \<^verbatim>\<open>createClients\<close> leaves in a client handle: the client of the
  handle's constructor, with the authorizer set and the sample's tag added to the user
  agent.
\<close>

definition sample_client ::
    "env \<Rightarrow> string \<Rightarrow> string \<Rightarrow> BearerAuthorizer option \<Rightarrow> client" where
  "sample_client E constructor subscriptionID' authorizer' =
     AddToUserAgent (''sample/0006/'' @ utils_GetCommit E)
       ((NewClient E constructor subscriptionID')\<lparr>cl_Authorizer := authorizer'\<rparr>)"

section \<open>Stand-ins for the remote service\<close>

text \<open>
  A service that counts the requests it has answered and fails the one numbered \<open>k\<close>
  (from 0); every answer carries the identifiers and the children that the workflow
  reads.
\<close>

definition mock_err :: "nat \<Rightarrow> nat \<Rightarrow> error option" where
  "mock_err k s = (if s = k then Some (Err ''boom'') else None)"

definition mock_lb :: LoadBalancer where
  "mock_lb =
    \<lparr>lb_Location = Some ''westus'',
     lb_LoadBalancerPropertiesFormat = Some
      \<lparr>lbf_FrontendIPConfigurations = None,
       lbf_BackendAddressPools = Some
         [\<lparr>bap_ID = Some ''/lb/backendAddressPools/backEndPool'',
           bap_Name = Some ''backEndPool''\<rparr>],
       lbf_LoadBalancingRules = None,
       lbf_Probes = None,
       lbf_InboundNatRules = Some
         [\<lparr>inr_ID = Some ''/lb/inboundNatRules/natRule1'', inr_Name = Some ''natRule1'',
           inr_InboundNatRulePropertiesFormat = Some
             \<lparr>inrf_FrontendIPConfiguration = None, inrf_Protocol = ''Tcp'',
              inrf_FrontendPort = Some 21, inrf_BackendPort = Some 22,
              inrf_IdleTimeoutInMinutes = Some 4, inrf_EnableFloatingIP = Some False\<rparr>\<rparr>,
          \<lparr>inr_ID = Some ''/lb/inboundNatRules/natRule2'', inr_Name = Some ''natRule2'',
           inr_InboundNatRulePropertiesFormat = Some
             \<lparr>inrf_FrontendIPConfiguration = None, inrf_Protocol = ''Tcp'',
              inrf_FrontendPort = Some 23, inrf_BackendPort = Some 22,
              inrf_IdleTimeoutInMinutes = Some 4, inrf_EnableFloatingIP = Some False\<rparr>\<rparr>]\<rparr>\<rparr>"

definition mock_pip :: PublicIPAddress where
  "mock_pip =
    \<lparr>pip_ID = Some ''/pip'',
     pip_Location = Some ''westus'',
     pip_PublicIPAddressPropertiesFormat = Some
       \<lparr>pipf_PublicIPAllocationMethod = ''Static'',
        pipf_DNSSettings = None,
        pipf_IPAddress = Some ''203.0.113.7''\<rparr>\<rparr>"

definition mock_list :: ResourceListResult where
  "mock_list =
    \<lparr>rlr_Value = Some
       [\<lparr>gr_Name = Some ''lb'', gr_Type = Some ''Microsoft.Network/loadBalancers''\<rparr>,
        \<lparr>gr_Name = Some ''Web1'', gr_Type = Some ''Microsoft.Compute/virtualMachines''\<rparr>]\<rparr>"

definition mock_remote :: "nat \<Rightarrow> nat remote" where
  "mock_remote k =
    \<lparr>GroupsClient_CreateOrUpdate = (\<lambda>c grp p s. (mock_err k s, Suc s)),
     AccountsClient_Create = (\<lambda>c grp name p s. (mock_err k s, Suc s)),
     PublicIPAddressesClient_CreateOrUpdate =
       (\<lambda>c grp name p s. ((mock_pip, mock_err k s), Suc s)),
     LoadBalancersClient_CreateOrUpdate =
       (\<lambda>c grp name p s. ((mock_lb, mock_err k s), Suc s)),
     VirtualNetworksClient_CreateOrUpdate = (\<lambda>c grp name p s. (mock_err k s, Suc s)),
     SubnetsClient_CreateOrUpdate = (\<lambda>c grp vnet name p s. (mock_err k s, Suc s)),
     SubnetsClient_Get =
       (\<lambda>c grp vnet name expand s.
          ((\<lparr>sn_ID = Some (''/'' @ vnet @ ''/'' @ name), sn_SubnetPropertiesFormat = None\<rparr>,
            mock_err k s), Suc s)),
     AvailabilitySetsClient_CreateOrUpdate =
       (\<lambda>c grp name p s. ((p\<lparr>avs_ID := Some (''/'' @ name)\<rparr>, mock_err k s), Suc s)),
     InterfacesClient_CreateOrUpdate =
       (\<lambda>c grp name p s. ((p\<lparr>if_ID := Some (''/'' @ name)\<rparr>, mock_err k s), Suc s)),
     VirtualMachinesClient_CreateOrUpdate = (\<lambda>c grp name p s. (mock_err k s, Suc s)),
     GroupsClient_ListResources =
       (\<lambda>c grp flt expand tp s. ((mock_list, mock_err k s), Suc s)),
     GroupsClient_Delete = (\<lambda>c grp s. (mock_err k s, Suc s))\<rparr>"

text \<open>A service that answers every request with no error and with empty objects.\<close>

definition mock_empty :: "nat remote" where
  "mock_empty =
    \<lparr>GroupsClient_CreateOrUpdate = (\<lambda>c grp p s. (None, Suc s)),
     AccountsClient_Create = (\<lambda>c grp name p s. (None, Suc s)),
     PublicIPAddressesClient_CreateOrUpdate =
       (\<lambda>c grp name p s.
          ((\<lparr>pip_ID = None, pip_Location = None,
             pip_PublicIPAddressPropertiesFormat = None\<rparr>, None), Suc s)),
     LoadBalancersClient_CreateOrUpdate =
       (\<lambda>c grp name p s.
          ((\<lparr>lb_Location = None, lb_LoadBalancerPropertiesFormat = None\<rparr>, None), Suc s)),
     VirtualNetworksClient_CreateOrUpdate = (\<lambda>c grp name p s. (None, Suc s)),
     SubnetsClient_CreateOrUpdate = (\<lambda>c grp vnet name p s. (None, Suc s)),
     SubnetsClient_Get =
       (\<lambda>c grp vnet name expand s.
          ((\<lparr>sn_ID = None, sn_SubnetPropertiesFormat = None\<rparr>, None), Suc s)),
     AvailabilitySetsClient_CreateOrUpdate =
       (\<lambda>c grp name p s. ((\<lparr>avs_ID = None, avs_Location = None\<rparr>, None), Suc s)),
     InterfacesClient_CreateOrUpdate =
       (\<lambda>c grp name p s.
          ((\<lparr>if_ID = None, if_Location = None, if_InterfacePropertiesFormat = None\<rparr>, None),
           Suc s)),
     VirtualMachinesClient_CreateOrUpdate = (\<lambda>c grp name p s. (None, Suc s)),
     GroupsClient_ListResources =
       (\<lambda>c grp flt expand tp s. ((\<lparr>rlr_Value = None\<rparr>, None), Suc s)),
     GroupsClient_Delete = (\<lambda>c grp s. (None, Suc s))\<rparr>"

text \<open>An environment with a credential and the subscription id \<open>sub123\<close>.\<close>

definition mock_env :: env where
  "mock_env =
    \<lparr>utils_GetAuthorizer = Inr (Some (BearerAuthorizer ''token''), None),
     utils_GetEnvVarOrExit =
       (\<lambda>v. if v = ''AZURE_SUBSCRIPTION_ID'' then Inr ''sub123''
            else Inl ([''Missing environment variable '' @ v @ nl], 1)),
     utils_GetCommit = ''0a1b2c3'',
     sdk_UserAgent = (\<lambda>constructor. ''Go-SDK '' @ constructor)\<rparr>"

text \<open>A process state at the start of \<^verbatim>\<open>main\<close>, with the subscription id \<open>sub123\<close>.\<close>

definition mock_pkg :: pkg where
  "mock_pkg = pkg_declared\<lparr>subscriptionID := ''sub123''\<rparr>"

definition mock_world :: "nat world" where
  "mock_world = \<lparr>rstate = 0, calls = [], stdout = [], globals = mock_pkg, writes = []\<rparr>"

text \<open>
  Notions for the proofs about \<^verbatim>\<open>main\<close>. A statement is \<open>good\<close> when, started after a
  trace without failure, it either runs without failure or stops at a failed request.
  Started after a trace in which no error has reached the workflow, a statement
  \<open>passes\<close> when it either stops at a failed request or returns with still no error
  received, and it \<open>fails\<close> when it stops at a failed request whatever the service
  answers. A statement is a \<open>frame\<close> when it leaves the package-level variables and the
  log of their writes as they are.
\<close>

definition good :: "('r, unit) prog \<Rightarrow> bool" where
  "good m =
     (\<forall>w. no_failure (calls w) \<longrightarrow> ran_without_failure (m w) \<or> stopped_at_failure (m w))"

definition passes :: "('r, unit) prog \<Rightarrow> bool" where
  "passes m =
     (\<forall>w. no_received_failure (calls w) \<longrightarrow>
        stopped_at_failure (m w) \<or>
        fst (m w) = Inr () \<and> no_received_failure (calls (snd (m w))))"

definition fails :: "('r, unit) prog \<Rightarrow> bool" where
  "fails m = (\<forall>w. no_received_failure (calls w) \<longrightarrow> stopped_at_failure (m w))"

definition frame :: "('r, 'a) prog \<Rightarrow> bool" where
  "frame m = (\<forall>w. globals (snd (m w)) = globals w \<and> writes (snd (m w)) = writes w)"

section \<open>The builders\<close>

lemmas prog_defs = ret_def bnd_def thn_def panic_def os_Exit_def Print_def Println_def
  read_globals_def invoke_def invoke_err_def start_def await_def fmt_Scanln_def onErrorFail_def

lemmas mock_defs = mock_remote_def mock_err_def mock_world_def mock_pkg_def pkg_declared_def
  mock_lb_def mock_pip_def mock_list_def

lemma path_segments_append:
  "CHR ''/'' \<notin> set a \<Longrightarrow> path_segments (a @ CHR ''/'' # rest) = a # path_segments rest"
  by (induction a) auto

lemma path_segments_last: "CHR ''/'' \<notin> set a \<Longrightarrow> path_segments a = [a]"
  by (induction a) auto

text \<open>
  C4. \<^verbatim>\<open>buildID\<close> reads the group name and the load balancer's name from the
  package-level variables \<^verbatim>\<open>groupName\<close> and \<^verbatim>\<open>loadBalancerName\<close>. Whatever these two hold
  and whatever the subscription id, the sub-resource type and the sub-resource name
  are, the result is the template
  \<^verbatim>\<open>/subscriptions/{sub}/resourceGroups/{group}/providers/Microsoft.Network/loadBalancers/{lbName}/{subType}/{subTypeName}\<close>
  filled with the five values. When none of the five contains a slash, the path has
  exactly eleven segments: the five values at positions 2, 4, 8, 9 and 10 and the fixed
  words at the others. The result is a function of the five values: the same inputs
  give the same string.
\<close>

theorem buildID_template:
  "buildID (g\<lparr>groupName := grp, loadBalancerName := lbName\<rparr>) sub subType subTypeName =
     ''/subscriptions/'' @ sub @ ''/resourceGroups/'' @ grp @
     ''/providers/Microsoft.Network/loadBalancers/'' @ lbName @
     ''/'' @ subType @ ''/'' @ subTypeName \<and>
   (CHR ''/'' \<notin> set sub \<and> CHR ''/'' \<notin> set grp \<and> CHR ''/'' \<notin> set lbName \<and>
    CHR ''/'' \<notin> set subType \<and> CHR ''/'' \<notin> set subTypeName \<longrightarrow>
    path_segments
       (buildID (g\<lparr>groupName := grp, loadBalancerName := lbName\<rparr>) sub subType subTypeName) =
      [[], ''subscriptions'', sub, ''resourceGroups'', grp, ''providers'',
       ''Microsoft.Network'', ''loadBalancers'', lbName, subType, subTypeName])"
  by (simp add: buildID_def path_segments_append path_segments_last)

theorem buildID_template_witness:
  "buildID (mock_pkg\<lparr>groupName := ''rg'', loadBalancerName := ''lb1''\<rparr>)
       ''sub123'' ''probes'' ''probe'' =
     ''/subscriptions/sub123/resourceGroups/rg/providers/Microsoft.Network/loadBalancers/lb1/probes/probe'' \<and>
   path_segments
       (buildID (mock_pkg\<lparr>groupName := ''rg'', loadBalancerName := ''lb1''\<rparr>)
          ''sub123'' ''probes'' ''probe'') =
     [[], ''subscriptions'', ''sub123'', ''resourceGroups'', ''rg'', ''providers'',
      ''Microsoft.Network'', ''loadBalancers'', ''lb1'', ''probes'', ''probe'']"
  using buildID_template [where g = mock_pkg and grp = "''rg''" and lbName = "''lb1''"
      and sub = "''sub123''" and subType = "''probes''" and subTypeName = "''probe''"]
  by simp


text \<open>
  C6. For every subnet identifier, every load balancer whose backend-pool list is
  non-empty and whose NAT-rule list is longer than the index, and every index (a
  position in the list, so not negative), \<^verbatim>\<open>buildNICparams\<close> returns a network
  interface with exactly one IP configuration, which references the given subnet, the
  backend pool at index 0 and the NAT rule at the given index.
\<close>

theorem buildNICparams_references:
  assumes "lb_LoadBalancerPropertiesFormat lb = Some lbf"
    and "lbf_BackendAddressPools lbf = Some pools" and "pools \<noteq> []"
    and "lbf_InboundNatRules lbf = Some rules"
    and "0 \<le> natRule" and "natRule < int (length rules)"
  shows "buildNICparams g subnetID lb natRule = Some
      \<lparr>if_ID = None,
       if_Location = Some (westus g),
       if_InterfacePropertiesFormat = Some
        \<lparr>iff_IPConfigurations = Some
          [\<lparr>ipc_Name = Some ''pipConfig'',
            ipc_InterfaceIPConfigurationPropertiesFormat = Some
             \<lparr>ipcf_Subnet = Some \<lparr>sn_ID = subnetID, sn_SubnetPropertiesFormat = None\<rparr>,
              ipcf_LoadBalancerBackendAddressPools = Some
                [\<lparr>bap_ID = bap_ID (pools ! 0), bap_Name = None\<rparr>],
              ipcf_LoadBalancerInboundNatRules = Some
                [\<lparr>inr_ID = inr_ID (rules ! nat natRule), inr_Name = None,
                  inr_InboundNatRulePropertiesFormat = None\<rparr>]\<rparr>\<rparr>]\<rparr>\<rparr>"
  using assms by (simp add: buildNICparams_def at_index_def)

theorem buildNICparams_references_witness:
  "buildNICparams mock_pkg (Some ''/vNet/subnet'') mock_lb 1 = Some
      \<lparr>if_ID = None,
       if_Location = Some ''westus'',
       if_InterfacePropertiesFormat = Some
        \<lparr>iff_IPConfigurations = Some
          [\<lparr>ipc_Name = Some ''pipConfig'',
            ipc_InterfaceIPConfigurationPropertiesFormat = Some
             \<lparr>ipcf_Subnet = Some \<lparr>sn_ID = Some ''/vNet/subnet'',
                                   sn_SubnetPropertiesFormat = None\<rparr>,
              ipcf_LoadBalancerBackendAddressPools = Some
                [\<lparr>bap_ID = Some ''/lb/backendAddressPools/backEndPool'', bap_Name = None\<rparr>],
              ipcf_LoadBalancerInboundNatRules = Some
                [\<lparr>inr_ID = Some ''/lb/inboundNatRules/natRule2'', inr_Name = None,
                  inr_InboundNatRulePropertiesFormat = None\<rparr>]\<rparr>\<rparr>]\<rparr>\<rparr>"
  using buildNICparams_references
    [where lb = mock_lb and lbf = "the (lb_LoadBalancerPropertiesFormat mock_lb)"
       and pools = "the (lbf_BackendAddressPools (the (lb_LoadBalancerPropertiesFormat mock_lb)))"
       and rules = "the (lbf_InboundNatRules (the (lb_LoadBalancerPropertiesFormat mock_lb)))"
       and natRule = 1 and g = mock_pkg and subnetID = "Some ''/vNet/subnet''"]
  by (simp add: mock_lb_def mock_pkg_def pkg_declared_def)

text \<open>
  C7. For every storage account name and VM name, \<^verbatim>\<open>buildVhdURI\<close> returns
  \<^verbatim>\<open>https://{storageAccount}.blob.core.windows.net/golangcontainer/{vmName}.vhd\<close>; for
  the account \<^verbatim>\<open>golangrocksonazure\<close> and the VM \<^verbatim>\<open>Web1\<close> that is
  \<^verbatim>\<open>https://golangrocksonazure.blob.core.windows.net/golangcontainer/Web1.vhd\<close>.
\<close>

theorem buildVhdURI_template:
  "buildVhdURI storageAccount vmName =
     ''https://'' @ storageAccount @ ''.blob.core.windows.net/golangcontainer/'' @
     vmName @ ''.vhd'' \<and>
   buildVhdURI ''golangrocksonazure'' ''Web1'' =
     ''https://golangrocksonazure.blob.core.windows.net/golangcontainer/Web1.vhd''"
  by (simp add: buildVhdURI_def)

section \<open>The workflow\<close>

lemma print_resources_run:
  "print_resources rs w =
     (if resources_ok rs then Inr () else Inl Panic, w\<lparr>stdout := stdout w @ resource_lines rs\<rparr>)"
proof (induction rs arbitrary: w)
  case Nil
  show ?case by (simp add: resources_ok_def ret_def)
next
  case (Cons r rs)
  show ?case
    by (cases "gr_Name r"; cases "gr_Type r")
       (simp_all add: resources_ok_def Cons.IH thn_def bnd_def Print_def panic_def)
qed

subsection \<open>Statements that leave the package-level variables alone\<close>

lemma frame_bnd: "frame m \<Longrightarrow> (\<And>x. frame (f x)) \<Longrightarrow> frame (bnd m f)"
  unfolding frame_def bnd_def
  by (auto split: prod.splits sum.splits) (metis snd_conv)+

lemma frame_thn: "frame m \<Longrightarrow> frame n \<Longrightarrow> frame (thn m n)"
  by (simp add: thn_def frame_bnd)

lemma frame_block_Nil: "frame (block [])"
  by (simp add: frame_def ret_def)

lemma frame_block_Cons: "frame m \<Longrightarrow> frame (block ms) \<Longrightarrow> frame (block (m # ms))"
  by (simp add: frame_thn)

lemma frame_prims:
  "frame (ret x)" "frame panic" "frame (os_Exit n)" "frame (Print s)" "frame (Println s)"
  "frame read_globals" "frame (invoke c f)" "frame (invoke_err c f')" "frame (start c f')"
  "frame (await c e)" "frame fmt_Scanln" "frame (print_resources rs)"
  by (simp_all add: frame_def prog_defs print_resources_run split: prod.splits)

lemma frame_onErrorFail: "frame (onErrorFail err msg)"
  by (cases err) (simp_all add: frame_def prog_defs)

lemma frame_case_option:
  "frame a \<Longrightarrow> (\<And>x. frame (k x)) \<Longrightarrow> frame (case v of None \<Rightarrow> a | Some x \<Rightarrow> k x)"
  by (cases v) simp_all

lemma frame_case_prod: "(\<And>a b. frame (k a b)) \<Longrightarrow> frame (case p of (a, b) \<Rightarrow> k a b)"
  by (cases p) simp

lemmas frame_rules = frame_bnd frame_thn frame_block_Nil frame_block_Cons frame_prims
  frame_onErrorFail frame_case_option frame_case_prod

lemma frame_createVM: "frame (createVM R vmName subnetID availSetID ipAddress lb natRule)"
  unfolding createVM_def Let_def by (intro frame_rules)

lemma frame_main: "frame (main R)"
  unfolding main_def by (intro frame_rules frame_createVM)

subsection \<open>Statements that stop at the first failed request\<close>

lemma goodD:
  "good m \<Longrightarrow> no_failure (calls w) \<Longrightarrow> ran_without_failure (m w) \<or> stopped_at_failure (m w)"
  by (simp add: good_def)

lemma failsD: "fails m \<Longrightarrow> no_received_failure (calls w) \<Longrightarrow> stopped_at_failure (m w)"
  by (simp add: fails_def)

lemma passesD:
  "passes m \<Longrightarrow> no_received_failure (calls w) \<Longrightarrow>
     stopped_at_failure (m w) \<or> fst (m w) = Inr () \<and> no_received_failure (calls (snd (m w)))"
  by (simp add: passes_def)

lemma no_failure_received: "no_failure evs \<Longrightarrow> no_received_failure evs"
  by (induction evs) (simp_all add: no_failure_def no_received_failure_def)

lemma good_thn:
  fixes a :: "('r, unit) prog"
  assumes "good a" and "good b"
  shows "good (thn a b)"
  unfolding good_def
proof (intro allI impI)
  fix w :: "'r world"
  assume nf: "no_failure (calls w)"
  obtain r w' where aw: "a w = (r, w')" by (cases "a w")
  show "ran_without_failure (thn a b w) \<or> stopped_at_failure (thn a b w)"
  proof (cases r)
    case (Inl e)
    then have "thn a b w = a w" using aw by (simp add: thn_def bnd_def)
    then show ?thesis using goodD[OF assms(1) nf] by simp
  next
    case (Inr u)
    then have t: "thn a b w = b w'" using aw by (simp add: thn_def bnd_def)
    have "no_failure (calls w')"
      using goodD[OF assms(1) nf] aw Inr
      by (auto simp: ran_without_failure_def stopped_at_failure_def)
    from goodD[OF assms(2) this] show ?thesis using t by simp
  qed
qed

lemma good_block_Nil: "good (block [])"
  by (simp add: good_def ret_def ran_without_failure_def)

lemma good_block_Cons: "good m \<Longrightarrow> good (block ms) \<Longrightarrow> good (block (m # ms))"
  by (simp add: good_thn)

lemma good_bnd_read_globals: "(\<And>g. good (k g)) \<Longrightarrow> good (bnd read_globals k)"
  by (simp add: good_def bnd_def read_globals_def)

lemma good_prims:
  "good panic" "good (Print s)" "good (Println s)" "good fmt_Scanln" "good (print_resources rs)"
  by (simp_all add: good_def prog_defs print_resources_run ran_without_failure_def no_failure_def)

lemma good_case_option:
  "good a \<Longrightarrow> (\<And>x. good (k x)) \<Longrightarrow> good (case v of None \<Rightarrow> a | Some x \<Rightarrow> k x)"
  by (cases v) simp_all

lemma failed_step:
  fixes w :: "'r world"
  assumes "no_received_failure (calls w)" and "\<not> is_start c"
  shows "stopped_at_failure
     (Inl (Exit 1), w\<lparr>rstate := s, calls := calls w @ [(c, Some e)],
        stdout := stdout w @ [message_of c @ '': '' @ Error e]\<rparr>)"
  using assms by (simp add: stopped_at_failure_def)

lemma checked_invoke_err:
  fixes f :: "'r \<Rightarrow> error option \<times> 'r" and w :: "'r world"
  assumes "message_of c = msg" and "\<not> is_start c" and "no_received_failure (calls w)"
  shows "stopped_at_failure (bnd (invoke_err c f) (\<lambda>err. onErrorFail err msg) w) \<or>
         bnd (invoke_err c f) (\<lambda>err. onErrorFail err msg) w =
           (Inr (), w\<lparr>rstate := snd (f (rstate w)), calls := calls w @ [(c, None)]\<rparr>)"
proof -
  obtain err s' where f: "f (rstate w) = (err, s')" by (cases "f (rstate w)")
  show ?thesis
  proof (cases err)
    case None
    then show ?thesis using f by (simp add: prog_defs)
  next
    case (Some e)
    show ?thesis
      using f Some failed_step[OF assms(3) assms(2), where s=s' and e=e] assms(1)
      by (simp add: prog_defs)
  qed
qed

lemma good_invoke_err:
  fixes f :: "'r \<Rightarrow> error option \<times> 'r"
  assumes "message_of c = msg" and "\<not> is_start c"
  shows "good (bnd (invoke_err c f) (\<lambda>err. onErrorFail err msg))"
  unfolding good_def
proof (intro allI impI)
  fix w :: "'r world"
  assume nf: "no_failure (calls w)"
  from checked_invoke_err[OF assms no_failure_received[OF nf], of f]
  show "ran_without_failure (bnd (invoke_err c f) (\<lambda>err. onErrorFail err msg) w) \<or>
        stopped_at_failure (bnd (invoke_err c f) (\<lambda>err. onErrorFail err msg) w)"
    using nf by (auto simp: ran_without_failure_def no_failure_def)
qed

lemma passes_invoke_err:
  fixes f :: "'r \<Rightarrow> error option \<times> 'r"
  assumes "message_of c = msg" and "\<not> is_start c"
  shows "passes (bnd (invoke_err c f) (\<lambda>err. onErrorFail err msg))"
  unfolding passes_def
proof (intro allI impI)
  fix w :: "'r world"
  assume nf: "no_received_failure (calls w)"
  from checked_invoke_err[OF assms nf, of f]
  show "stopped_at_failure (bnd (invoke_err c f) (\<lambda>err. onErrorFail err msg) w) \<or>
        fst (bnd (invoke_err c f) (\<lambda>err. onErrorFail err msg) w) = Inr () \<and>
        no_received_failure (calls (snd (bnd (invoke_err c f) (\<lambda>err. onErrorFail err msg) w)))"
    using nf by (auto simp: no_received_failure_def)
qed

lemma passes_prims: "passes (Print s)" "passes (Println s)"
  by (simp_all add: passes_def prog_defs)

lemma good_await:
  assumes "message_of c = msg" and "\<not> is_start c"
  shows "good (bnd (await c e) (\<lambda>err. onErrorFail err msg))"
  unfolding good_def
proof (intro allI impI)
  fix w :: "'r world"
  assume nf: "no_failure (calls w)"
  show "ran_without_failure (bnd (await c e) (\<lambda>err. onErrorFail err msg) w) \<or>
        stopped_at_failure (bnd (await c e) (\<lambda>err. onErrorFail err msg) w)"
  proof (cases e)
    case None
    then show ?thesis
      using nf by (simp add: prog_defs ran_without_failure_def no_failure_def)
  next
    case (Some e')
    show ?thesis
      using Some failed_step[OF no_failure_received[OF nf] assms(2), where s="rstate w" and e=e']
        assms(1)
      by (simp add: prog_defs)
  qed
qed

lemma fails_block_await:
  fixes ms :: "('r, unit) prog list"
  assumes "message_of c = msg" and "\<not> is_start c"
  shows "fails (block (bnd (await c (Some e)) (\<lambda>err. onErrorFail err msg) # ms))"
  unfolding fails_def
proof (intro allI impI)
  fix w :: "'r world"
  assume nf: "no_received_failure (calls w)"
  show "stopped_at_failure (block (bnd (await c (Some e)) (\<lambda>err. onErrorFail err msg) # ms) w)"
    using failed_step[OF nf assms(2), where s="rstate w" and e=e] assms(1)
    by (simp add: prog_defs)
qed

lemma fails_block_Cons:
  fixes m :: "('r, unit) prog"
  assumes "passes m" and "fails (block ms)"
  shows "fails (block (m # ms))"
  unfolding fails_def
proof (intro allI impI)
  fix w :: "'r world"
  assume nf: "no_received_failure (calls w)"
  obtain r w' where mw: "m w = (r, w')" by (cases "m w")
  from passesD[OF assms(1) nf]
  show "stopped_at_failure (block (m # ms) w)"
  proof
    assume st: "stopped_at_failure (m w)"
    then have "r = Inl (Exit 1)" using mw by (simp add: stopped_at_failure_def)
    then have "block (m # ms) w = m w" using mw by (simp add: thn_def bnd_def)
    then show ?thesis using st by simp
  next
    assume "fst (m w) = Inr () \<and> no_received_failure (calls (snd (m w)))"
    then have r: "r = Inr ()" and nf': "no_received_failure (calls w')" using mw by simp_all
    have "block (m # ms) w = block ms w'" using mw r by (simp add: thn_def bnd_def)
    then show ?thesis using failsD[OF assms(2) nf'] by simp
  qed
qed

lemma checked_invoke:
  fixes f :: "'r \<Rightarrow> ('a \<times> error option) \<times> 'r" and ms :: "'a \<Rightarrow> ('r, unit) prog list"
    and w :: "'r world"
  assumes "message_of c = msg" and "\<not> is_start c" and "no_received_failure (calls w)"
  shows "stopped_at_failure
           (bnd (invoke c f) (\<lambda>(x, err). block (onErrorFail err msg # ms x)) w) \<or>
         bnd (invoke c f) (\<lambda>(x, err). block (onErrorFail err msg # ms x)) w =
           block (ms (fst (fst (f (rstate w)))))
             (w\<lparr>rstate := snd (f (rstate w)), calls := calls w @ [(c, None)]\<rparr>)"
proof -
  obtain x err s' where f: "f (rstate w) = ((x, err), s')" by (cases "f (rstate w)") auto
  show ?thesis
  proof (cases err)
    case None
    then show ?thesis using f by (simp add: prog_defs)
  next
    case (Some e)
    show ?thesis
      using f Some failed_step[OF assms(3) assms(2), where s=s' and e=e] assms(1)
      by (simp add: prog_defs)
  qed
qed

lemma good_invoke:
  fixes f :: "'r \<Rightarrow> ('a \<times> error option) \<times> 'r" and ms :: "'a \<Rightarrow> ('r, unit) prog list"
  assumes "message_of c = msg" and "\<not> is_start c" and "\<And>x. good (block (ms x))"
  shows "good (bnd (invoke c f) (\<lambda>(x, err). block (onErrorFail err msg # ms x)))"
  unfolding good_def
proof (intro allI impI)
  fix w :: "'r world"
  assume nf: "no_failure (calls w)"
  let ?w' = "w\<lparr>rstate := snd (f (rstate w)), calls := calls w @ [(c, None)]\<rparr>"
  have "no_failure (calls ?w')" using nf by (simp add: no_failure_def)
  from goodD[OF assms(3)[of "fst (fst (f (rstate w)))"] this]
    checked_invoke[OF assms(1) assms(2) no_failure_received[OF nf], of f ms]
  show "ran_without_failure
          (bnd (invoke c f) (\<lambda>(x, err). block (onErrorFail err msg # ms x)) w) \<or>
        stopped_at_failure
          (bnd (invoke c f) (\<lambda>(x, err). block (onErrorFail err msg # ms x)) w)"
    by auto
qed

lemma fails_block_invoke:
  fixes f :: "'r \<Rightarrow> ('a \<times> error option) \<times> 'r" and ms :: "'a \<Rightarrow> ('r, unit) prog list"
  assumes "message_of c = msg" and "\<not> is_start c" and "\<And>x. fails (block (ms x))"
  shows "fails (block [bnd (invoke c f) (\<lambda>(x, err). block (onErrorFail err msg # ms x))])"
  unfolding fails_def
proof (intro allI impI)
  fix w :: "'r world"
  assume nf: "no_received_failure (calls w)"
  let ?m = "bnd (invoke c f) (\<lambda>(x, err). block (onErrorFail err msg # ms x))"
  let ?w' = "w\<lparr>rstate := snd (f (rstate w)), calls := calls w @ [(c, None)]\<rparr>"
  have "no_received_failure (calls ?w')" using nf by (simp add: no_received_failure_def)
  from failsD[OF assms(3)[of "fst (fst (f (rstate w)))"] this] checked_invoke[OF assms(1) assms(2) nf, of f ms]
  have st: "stopped_at_failure (?m w)" by auto
  then have "fst (?m w) = Inl (Exit 1)" by (simp add: stopped_at_failure_def)
  then have "block [?m] w = ?m w"
    by (cases "?m w") (simp add: thn_def bnd_def)
  then show "stopped_at_failure (block [?m] w)" using st by simp
qed

lemma good_start:
  fixes f :: "'r \<Rightarrow> error option \<times> 'r" and k :: "error option \<Rightarrow> ('r, unit) prog"
  assumes "is_start c" and "good (k None)" and "\<And>e. fails (k (Some e))"
  shows "good (bnd (start c f) k)"
  unfolding good_def
proof (intro allI impI)
  fix w :: "'r world"
  assume nf: "no_failure (calls w)"
  obtain err s' where f: "f (rstate w) = (err, s')" by (cases "f (rstate w)")
  show "ran_without_failure (bnd (start c f) k w) \<or> stopped_at_failure (bnd (start c f) k w)"
  proof (cases err)
    case None
    have "no_failure (calls (w\<lparr>rstate := s', calls := calls w @ [(c, None)]\<rparr>))"
      using nf by (simp add: no_failure_def)
    from goodD[OF assms(2) this] show ?thesis using f None by (simp add: prog_defs)
  next
    case (Some e)
    have "no_received_failure (calls (w\<lparr>rstate := s', calls := calls w @ [(c, Some e)]\<rparr>))"
      using no_failure_received[OF nf] assms(1) by (simp add: no_received_failure_def)
    from failsD[OF assms(3) this] show ?thesis using f Some by (simp add: prog_defs)
  qed
qed

lemma createVM_post:
  fixes w :: "'r world"
  assumes nf: "no_failure (calls w)"
  shows "(\<exists>w'. createVM R vmName subnetID availSetID ipAddress lb natRule w = (Inl Panic, w') \<and>
            no_failure (calls w')) \<or>
         (\<exists>w'. createVM R vmName subnetID availSetID ipAddress lb natRule w = (Inr None, w') \<and>
            no_failure (calls w')) \<or>
         (\<exists>w' c e evs. createVM R vmName subnetID availSetID ipAddress lb natRule w = (Inr (Some e), w') \<and>
            calls w' = evs @ [(c, Some e)] \<and> no_failure evs \<and> \<not> is_start c \<and>
            message_of c = ''createVM failed'')"
proof (cases "buildNICparams (globals w) subnetID lb natRule")
  case None
  then show ?thesis using nf by (simp add: createVM_def prog_defs Let_def)
next
  case (Some nicp)
  let ?g = "globals w"
  obtain nic e1 s1 where c1: "InterfacesClient_CreateOrUpdate R (interfaceClient ?g) (groupName ?g)
      (''nic-'' @ vmName) nicp (rstate w) = ((nic, e1), s1)"
    by (metis surj_pair)
  show ?thesis
  proof (cases e1)
    case (Some e)
    then show ?thesis using nf \<open>buildNICparams ?g subnetID lb natRule = Some nicp\<close> c1
      by (simp add: createVM_def prog_defs Let_def)
  next
    case None
    note e1 = None
    obtain e2 s2 where c2: "VirtualMachinesClient_CreateOrUpdate R (vmClient ?g) (groupName ?g) vmName
        (buildVMparams ?g vmName (if_ID nic) availSetID) s1 = (e2, s2)"
      by (metis surj_pair)
    show ?thesis
    proof (cases e2)
      case (Some e)
      then show ?thesis using nf \<open>buildNICparams ?g subnetID lb natRule = Some nicp\<close> c1 c2 e1
        by (simp add: createVM_def prog_defs Let_def no_failure_def)
    next
      case None
      then show ?thesis using nf \<open>buildNICparams ?g subnetID lb natRule = Some nicp\<close> c1 c2 e1
        by (cases "connect_message vmName (buildVMparams ?g vmName (if_ID nic) availSetID) ipAddress lb natRule")
           (simp_all add: createVM_def prog_defs Let_def no_failure_def)
    qed
  qed
qed

lemma good_createVM:
  fixes R :: "'r remote"
  shows "good (bnd (createVM R vmName subnetID availSetID ipAddress lb natRule)
                (\<lambda>err. onErrorFail err ''createVM failed''))"
  unfolding good_def
proof (intro allI impI)
  fix w :: "'r world"
  assume nf: "no_failure (calls w)"
  let ?m = "bnd (createVM R vmName subnetID availSetID ipAddress lb natRule)
                (\<lambda>err. onErrorFail err ''createVM failed'')"
  from createVM_post[OF nf, of R vmName subnetID availSetID ipAddress lb natRule]
  consider
    (p) w' where "createVM R vmName subnetID availSetID ipAddress lb natRule w = (Inl Panic, w')"
        "no_failure (calls w')"
  | (r) w' where "createVM R vmName subnetID availSetID ipAddress lb natRule w = (Inr None, w')"
        "no_failure (calls w')"
  | (f) w' c e evs where "createVM R vmName subnetID availSetID ipAddress lb natRule w = (Inr (Some e), w')"
        "calls w' = evs @ [(c, Some e)]" "no_failure evs" "\<not> is_start c"
        "message_of c = ''createVM failed''"
    by blast
  then show "ran_without_failure (?m w) \<or> stopped_at_failure (?m w)"
  proof cases
    case p
    then show ?thesis by (simp add: bnd_def ran_without_failure_def)
  next
    case r
    then show ?thesis by (simp add: prog_defs ran_without_failure_def)
  next
    case f
    then show ?thesis
      using no_failure_received[OF f(3)] by (simp add: prog_defs stopped_at_failure_def)
  qed
qed

lemmas good_rules = good_bnd_read_globals good_block_Nil good_block_Cons good_prims
  good_case_option good_invoke_err good_invoke good_start good_await good_createVM
  fails_block_await fails_block_invoke fails_block_Cons passes_prims passes_invoke_err

lemma good_main: "good (main R)"
  unfolding main_def
  by (intro good_rules; simp)

subsection \<open>The stand-in services\<close>

lemma mock_world_simps:
  "globals mock_world = mock_pkg" "rstate mock_world = 0" "calls mock_world = []"
  "stdout mock_world = []" "writes mock_world = []"
  by (simp_all add: mock_world_def)

lemma mock_remote_simps:
  "GroupsClient_CreateOrUpdate (mock_remote k) c grp gp s = (mock_err k s, Suc s)"
  "AccountsClient_Create (mock_remote k) c grp name ap s = (mock_err k s, Suc s)"
  "PublicIPAddressesClient_CreateOrUpdate (mock_remote k) c grp name pp s =
     ((mock_pip, mock_err k s), Suc s)"
  "LoadBalancersClient_CreateOrUpdate (mock_remote k) c grp name lp s =
     ((mock_lb, mock_err k s), Suc s)"
  "VirtualNetworksClient_CreateOrUpdate (mock_remote k) c grp name vp s = (mock_err k s, Suc s)"
  "SubnetsClient_CreateOrUpdate (mock_remote k) c grp vnet name sp s = (mock_err k s, Suc s)"
  "SubnetsClient_Get (mock_remote k) c grp vnet name expand s =
     ((\<lparr>sn_ID = Some (''/'' @ vnet @ ''/'' @ name), sn_SubnetPropertiesFormat = None\<rparr>,
       mock_err k s), Suc s)"
  "AvailabilitySetsClient_CreateOrUpdate (mock_remote k) c grp name avp s =
     ((avp\<lparr>avs_ID := Some (''/'' @ name)\<rparr>, mock_err k s), Suc s)"
  "InterfacesClient_CreateOrUpdate (mock_remote k) c grp name np s =
     ((np\<lparr>if_ID := Some (''/'' @ name)\<rparr>, mock_err k s), Suc s)"
  "VirtualMachinesClient_CreateOrUpdate (mock_remote k) c grp name vmp s = (mock_err k s, Suc s)"
  "GroupsClient_ListResources (mock_remote k) c grp flt expand tp s =
     ((mock_list, mock_err k s), Suc s)"
  "GroupsClient_Delete (mock_remote k) c grp s = (mock_err k s, Suc s)"
  by (simp_all add: mock_remote_def)

subsection \<open>The order of the requests\<close>

text \<open>
  C1, as the claim states it, is false. A service that answers every request with no
  error, but with empty objects, makes \<^verbatim>\<open>main\<close> panic: the first \<^verbatim>\<open>createVM\<close> call reads
  \<^verbatim>\<open>pip.IPAddress\<close> through the nil \<^verbatim>\<open>*PublicIPAddressPropertiesFormat\<close> of the returned
  public IP address. Every request made has succeeded, and the trace stops after the
  receive on the storage account's error channel: no network interface, no virtual
  machine, no listing and no deletion is requested.
\<close>

theorem main_calls_in_order_counterexample:
  "fst (main mock_empty mock_world) = Inl Panic \<and>
   calls (snd (main mock_empty mock_world)) =
       [(Groups_CreateOrUpdate (groupName mock_pkg) (resourceGroupParameters mock_pkg), None),
        (Accounts_Create (groupName mock_pkg) (storageAccountName mock_pkg) (accountParameters mock_pkg), None),
        (PublicIPAddresses_CreateOrUpdate (groupName mock_pkg) (ipName mock_pkg) (main_pip mock_pkg), None),
        (LoadBalancers_CreateOrUpdate (groupName mock_pkg) (loadBalancerName mock_pkg) (main_lb mock_pkg
             \<lparr>pip_ID = None, pip_Location = None,
                pip_PublicIPAddressPropertiesFormat = None\<rparr>), None),
        (VirtualNetworks_CreateOrUpdate (groupName mock_pkg) (vNetName mock_pkg) (vNetParameters mock_pkg), None),
        (Subnets_CreateOrUpdate (groupName mock_pkg) (vNetName mock_pkg) (subnetName mock_pkg) main_subnet, None),
        (Subnets_Get (groupName mock_pkg) (vNetName mock_pkg) (subnetName mock_pkg) [], None),
        (AvailabilitySets_CreateOrUpdate (groupName mock_pkg) ''availSet'' (main_availSet mock_pkg), None),
        (Accounts_Create_await, None)]"
  by (simp add: main_def prog_defs mock_empty_def mock_world_def)

text \<open>
  C1, amended. When every request of the run is answered with no error, and the
  answers carry what the workflow dereferences (the public IP address has its
  properties, \<^verbatim>\<open>buildNICparams\<close> is defined on the returned load balancer at the indices
  0 and 1, the last message of each \<^verbatim>\<open>createVM\<close> is defined, and the listing has a value
  whose entries have a name and a type), \<^verbatim>\<open>main\<close> returns and its trace is exactly:
  create the resource group; start the storage account; create the public IP address;
  create the load balancer; create the virtual network, the subnet, and read the subnet
  back; create the availability set; receive the storage account's result; create the
  network interface and then the machine of VM 1; the same for VM 2; list the
  resources; read a line of input; delete the resource group. The network interface of
  VM 1 is the one \<^verbatim>\<open>buildNICparams\<close> gives for NAT-rule index 0, that of VM 2 the one for
  index 1. Every resource identifier passed on comes from the answer to an earlier
  request: the load balancer's definition embeds the public IP address that its
  creation returned; both network interfaces are built from the identifier of the
  subnet that \<^verbatim>\<open>Get\<close> returned and from the load balancer that its creation returned;
  each machine refers to the identifier of the network interface returned just before
  and to the identifier of the availability set returned by its creation. (The load
  balancer's references to its own children are built by \<^verbatim>\<open>buildID\<close>; names in request
  paths and the blob URI of the OS disk are built from names, not from answers.)
\<close>

theorem main_calls_in_order:
  assumes g: "globals w = g"
    and c1: "GroupsClient_CreateOrUpdate R (groupClient g) (groupName g) (resourceGroupParameters g) (rstate w) = (None, sb)"
    and c2: "AccountsClient_Create R (accountClient g) (groupName g) (storageAccountName g) (accountParameters g) sb = (None, sc)"
    and c3: "PublicIPAddressesClient_CreateOrUpdate R (pipClient g) (groupName g) (ipName g) (main_pip g) sc = ((pip, None), sd)"
    and c4: "LoadBalancersClient_CreateOrUpdate R (lbClient g) (groupName g) (loadBalancerName g) (main_lb g pip) sd = ((lb, None), se)"
    and c5: "VirtualNetworksClient_CreateOrUpdate R (vNetClient g) (groupName g) (vNetName g) (vNetParameters g) se = (None, sf)"
    and c6: "SubnetsClient_CreateOrUpdate R (subnetClient g) (groupName g) (vNetName g) (subnetName g) main_subnet sf = (None, sg)"
    and c7: "SubnetsClient_Get R (subnetClient g) (groupName g) (vNetName g) (subnetName g) [] sg = ((subnet, None), sh)"
    and c8: "AvailabilitySetsClient_CreateOrUpdate R (availSetClient g) (groupName g) ''availSet'' (main_availSet g) sh = ((availSet, None), si)"
    and ip: "pip_PublicIPAddressPropertiesFormat pip = Some pipf"
    and n1: "buildNICparams g (sn_ID subnet) lb 0 = Some nicp_a"
    and c9: "InterfacesClient_CreateOrUpdate R (interfaceClient g) (groupName g) (''nic-'' @ vmName1 g) nicp_a si = ((nic_a, None), sj)"
    and c10: "VirtualMachinesClient_CreateOrUpdate R (vmClient g) (groupName g) (vmName1 g) (buildVMparams g (vmName1 g) (if_ID nic_a) (avs_ID availSet)) sj = (None, sk)"
    and m1: "connect_message (vmName1 g) (buildVMparams g (vmName1 g) (if_ID nic_a) (avs_ID availSet)) (pipf_IPAddress pipf) lb 0 = Some msg_a"
    and n2: "buildNICparams g (sn_ID subnet) lb 1 = Some nicp_b"
    and c11: "InterfacesClient_CreateOrUpdate R (interfaceClient g) (groupName g) (''nic-'' @ vmName2 g) nicp_b sk = ((nic_b, None), sl)"
    and c12: "VirtualMachinesClient_CreateOrUpdate R (vmClient g) (groupName g) (vmName2 g) (buildVMparams g (vmName2 g) (if_ID nic_b) (avs_ID availSet)) sl = (None, sm)"
    and m2: "connect_message (vmName2 g) (buildVMparams g (vmName2 g) (if_ID nic_b) (avs_ID availSet)) (pipf_IPAddress pipf) lb 1 = Some msg_b"
    and c13: "GroupsClient_ListResources R (groupClient g) (groupName g) [] [] None sm = ((list, None), sn)"
    and l: "rlr_Value list = Some rs" "resources_ok rs"
    and c14: "GroupsClient_Delete R (groupClient g) (groupName g) sn = (None, so)"
  shows "fst (main R w) = Inr () \<and>
     rstate (snd (main R w)) = so \<and>
     calls (snd (main R w)) = calls w @
       [(Groups_CreateOrUpdate (groupName g) (resourceGroupParameters g), None),
        (Accounts_Create (groupName g) (storageAccountName g) (accountParameters g), None),
        (PublicIPAddresses_CreateOrUpdate (groupName g) (ipName g) (main_pip g), None),
        (LoadBalancers_CreateOrUpdate (groupName g) (loadBalancerName g) (main_lb g pip), None),
        (VirtualNetworks_CreateOrUpdate (groupName g) (vNetName g) (vNetParameters g), None),
        (Subnets_CreateOrUpdate (groupName g) (vNetName g) (subnetName g) main_subnet, None),
        (Subnets_Get (groupName g) (vNetName g) (subnetName g) [], None),
        (AvailabilitySets_CreateOrUpdate (groupName g) ''availSet'' (main_availSet g), None),
        (Accounts_Create_await, None),
        (Interfaces_CreateOrUpdate (groupName g) (''nic-'' @ vmName1 g) nicp_a, None),
        (VirtualMachines_CreateOrUpdate (groupName g) (vmName1 g)
           (buildVMparams g (vmName1 g) (if_ID nic_a) (avs_ID availSet)), None),
        (Interfaces_CreateOrUpdate (groupName g) (''nic-'' @ vmName2 g) nicp_b, None),
        (VirtualMachines_CreateOrUpdate (groupName g) (vmName2 g)
           (buildVMparams g (vmName2 g) (if_ID nic_b) (avs_ID availSet)), None),
        (Groups_ListResources (groupName g) [] [] None, None),
        (Scanln, None),
        (Groups_Delete (groupName g), None)]"
  using assms by (simp add: main_def createVM_def prog_defs Let_def print_resources_run)


theorem main_calls_in_order_witness:
  "fst (main (mock_remote 100) mock_world) = Inr () \<and>
     rstate (snd (main (mock_remote 100) mock_world)) = 14 \<and>
     calls (snd (main (mock_remote 100) mock_world)) = calls mock_world @
       [(Groups_CreateOrUpdate (groupName mock_pkg) (resourceGroupParameters mock_pkg), None),
        (Accounts_Create (groupName mock_pkg) (storageAccountName mock_pkg) (accountParameters mock_pkg), None),
        (PublicIPAddresses_CreateOrUpdate (groupName mock_pkg) (ipName mock_pkg) (main_pip mock_pkg), None),
        (LoadBalancers_CreateOrUpdate (groupName mock_pkg) (loadBalancerName mock_pkg) (main_lb mock_pkg mock_pip), None),
        (VirtualNetworks_CreateOrUpdate (groupName mock_pkg) (vNetName mock_pkg) (vNetParameters mock_pkg), None),
        (Subnets_CreateOrUpdate (groupName mock_pkg) (vNetName mock_pkg) (subnetName mock_pkg) main_subnet, None),
        (Subnets_Get (groupName mock_pkg) (vNetName mock_pkg) (subnetName mock_pkg) [], None),
        (AvailabilitySets_CreateOrUpdate (groupName mock_pkg) ''availSet'' (main_availSet mock_pkg), None),
        (Accounts_Create_await, None),
        (Interfaces_CreateOrUpdate (groupName mock_pkg) (''nic-'' @ vmName1 mock_pkg) (the (buildNICparams mock_pkg (Some ''/vNet/subnet'') mock_lb 0)), None),
        (VirtualMachines_CreateOrUpdate (groupName mock_pkg) (vmName1 mock_pkg)
           (buildVMparams mock_pkg (vmName1 mock_pkg) (if_ID ((the (buildNICparams mock_pkg (Some ''/vNet/subnet'') mock_lb 0))\<lparr>if_ID := Some ''/nic-Web1''\<rparr>)) (avs_ID \<lparr>avs_ID = Some ''/availSet'', avs_Location = Some ''westus''\<rparr>)), None),
        (Interfaces_CreateOrUpdate (groupName mock_pkg) (''nic-'' @ vmName2 mock_pkg) (the (buildNICparams mock_pkg (Some ''/vNet/subnet'') mock_lb 1)), None),
        (VirtualMachines_CreateOrUpdate (groupName mock_pkg) (vmName2 mock_pkg)
           (buildVMparams mock_pkg (vmName2 mock_pkg) (if_ID ((the (buildNICparams mock_pkg (Some ''/vNet/subnet'') mock_lb 1))\<lparr>if_ID := Some ''/nic-Web2''\<rparr>)) (avs_ID \<lparr>avs_ID = Some ''/availSet'', avs_Location = Some ''westus''\<rparr>)), None),
        (Groups_ListResources (groupName mock_pkg) [] [] None, None),
        (Scanln, None),
        (Groups_Delete (groupName mock_pkg), None)]"
  using main_calls_in_order
    [where R = "mock_remote 100" and
      w = mock_world and
      g = mock_pkg and
      sb = 1 and
      sc = 2 and
      sd = 3 and
      se = 4 and
      sf = 5 and
      sg = 6 and
      sh = 7 and
      si = 8 and
      sj = 9 and
      sk = 10 and
      sl = 11 and
      sm = 12 and
      sn = 13 and
      so = 14 and
      pip = mock_pip and
      lb = mock_lb and
      subnet = "\<lparr>sn_ID = Some ''/vNet/subnet'', sn_SubnetPropertiesFormat = None\<rparr>" and
      availSet = "\<lparr>avs_ID = Some ''/availSet'', avs_Location = Some ''westus''\<rparr>" and
      pipf = "the (pip_PublicIPAddressPropertiesFormat mock_pip)" and
      nicp_a = "the (buildNICparams mock_pkg (Some ''/vNet/subnet'') mock_lb 0)" and
      nic_a = "(the (buildNICparams mock_pkg (Some ''/vNet/subnet'') mock_lb 0))\<lparr>if_ID := Some ''/nic-Web1''\<rparr>" and
      msg_a = "the (connect_message ''Web1'' (buildVMparams mock_pkg ''Web1'' (Some ''/nic-Web1'') (Some ''/availSet'')) (Some ''203.0.113.7'') mock_lb 0)" and
      nicp_b = "the (buildNICparams mock_pkg (Some ''/vNet/subnet'') mock_lb 1)" and
      nic_b = "(the (buildNICparams mock_pkg (Some ''/vNet/subnet'') mock_lb 1))\<lparr>if_ID := Some ''/nic-Web2''\<rparr>" and
      msg_b = "the (connect_message ''Web2'' (buildVMparams mock_pkg ''Web2'' (Some ''/nic-Web2'') (Some ''/availSet'')) (Some ''203.0.113.7'') mock_lb 1)" and
      list = mock_list and
      rs = "the (rlr_Value mock_list)"]
  by (simp add: mock_defs buildNICparams_def at_index_def connect_message_def buildVMparams_def
        main_availSet_def resources_ok_def)

subsection \<open>Failures\<close>

text \<open>
  C2, as the claim states it, is false for the storage account. \<^verbatim>\<open>main\<close> starts the
  creation of the storage account and keeps its error channel; it receives the error
  only after the availability set is created. With a service that fails the creation
  of the storage account (its second request) and nothing else, the failed request is
  followed by six further requests (public IP address, load balancer, virtual network,
  subnet, reading the subnet back, availability set) before the receive ends the
  process with status 1: the failure of that step does not end the process at once.
\<close>

theorem main_stops_at_failure_counterexample:
  "AccountsClient_Create (mock_remote 1) (accountClient mock_pkg) (groupName mock_pkg)
       (storageAccountName mock_pkg) (accountParameters mock_pkg) 1 =
     (Some (Err ''boom''), 2) \<and>
   fst (main (mock_remote 1) mock_world) = Inl (Exit 1) \<and>
   calls (snd (main (mock_remote 1) mock_world)) =
     [(Groups_CreateOrUpdate (groupName mock_pkg) (resourceGroupParameters mock_pkg), None),
      (Accounts_Create (groupName mock_pkg) (storageAccountName mock_pkg)
         (accountParameters mock_pkg), Some (Err ''boom'')),
      (PublicIPAddresses_CreateOrUpdate (groupName mock_pkg) (ipName mock_pkg)
         (main_pip mock_pkg), None),
      (LoadBalancers_CreateOrUpdate (groupName mock_pkg) (loadBalancerName mock_pkg)
         (main_lb mock_pkg mock_pip), None),
      (VirtualNetworks_CreateOrUpdate (groupName mock_pkg) (vNetName mock_pkg)
         (vNetParameters mock_pkg), None),
      (Subnets_CreateOrUpdate (groupName mock_pkg) (vNetName mock_pkg) (subnetName mock_pkg)
         main_subnet, None),
      (Subnets_Get (groupName mock_pkg) (vNetName mock_pkg) (subnetName mock_pkg) [], None),
      (AvailabilitySets_CreateOrUpdate (groupName mock_pkg) ''availSet''
         (main_availSet mock_pkg), None),
      (Accounts_Create_await, Some (Err ''boom''))] \<and>
   \<not> no_failure (butlast (calls (snd (main (mock_remote 1) mock_world))))"
  by (simp add: main_def prog_defs mock_remote_simps mock_err_def mock_world_simps
        no_failure_def)

text \<open>
  C2, amended. If the group is created, the storage account is started (whatever the
  service answers) and the creation of the public IP address is answered with an error,
  then \<^verbatim>\<open>main\<close> ends the process with status 1; the trace is these three requests, so
  the load balancer is never requested; and the last thing written is the single line
  \<^verbatim>\<open>CreateOrUpdate Public IP failed: \<close> followed by the error's text. If the creation of
  the storage account is answered with an error and the six requests after it succeed,
  \<^verbatim>\<open>main\<close> makes these six requests, receives the error, and ends the process with
  status 1 there, the last thing written being \<^verbatim>\<open>Create Storage Account failed: \<close> and
  the error's text: nothing after the availability set is requested. In general, for
  every service and every starting state without a failed request, a run of \<^verbatim>\<open>main\<close>
  either meets no failed request at all (and then returns or panics, and does not exit
  through \<^verbatim>\<open>os.Exit\<close>), or ends with status 1 at a failed request (the receive of the
  storage account's error included) that is the last of the trace, with the message of
  that step, a colon and the error's text written last, every request before it other
  than the creation of the storage account having succeeded. So every error that
  reaches the workflow ends the process at once, and a failed creation of the storage
  account always ends it, at the latest at the receive.
\<close>

theorem main_stops_at_failure:
  fixes w :: "'r world"
  shows
   "(globals w = g \<and>
     GroupsClient_CreateOrUpdate R (groupClient g) (groupName g) (resourceGroupParameters g)
       (rstate w) = (None, sa) \<and>
     AccountsClient_Create R (accountClient g) (groupName g) (storageAccountName g)
       (accountParameters g) sa = (pending, sb) \<and>
     PublicIPAddressesClient_CreateOrUpdate R (pipClient g) (groupName g) (ipName g)
       (main_pip g) sb = ((pip, Some e), sc) \<longrightarrow>
     main R w =
       (Inl (Exit 1),
        w\<lparr>rstate := sc,
          calls := calls w @
            [(Groups_CreateOrUpdate (groupName g) (resourceGroupParameters g), None),
             (Accounts_Create (groupName g) (storageAccountName g) (accountParameters g),
              pending),
             (PublicIPAddresses_CreateOrUpdate (groupName g) (ipName g) (main_pip g), Some e)],
          stdout := stdout w @
            [''Creating resource group'' @ nl,
             ''Starting to create storage account...'' @ nl,
             ''Starting to create public IP address...'' @ nl,
             ''CreateOrUpdate Public IP failed: '' @ Error e]\<rparr>)) \<and>
    (globals w = g \<and>
     GroupsClient_CreateOrUpdate R (groupClient g) (groupName g) (resourceGroupParameters g)
       (rstate w) = (None, sa) \<and>
     AccountsClient_Create R (accountClient g) (groupName g) (storageAccountName g)
       (accountParameters g) sa = (Some e, sb) \<and>
     PublicIPAddressesClient_CreateOrUpdate R (pipClient g) (groupName g) (ipName g)
       (main_pip g) sb = ((pip, None), sc) \<and>
     LoadBalancersClient_CreateOrUpdate R (lbClient g) (groupName g) (loadBalancerName g)
       (main_lb g pip) sc = ((lb, None), sd) \<and>
     VirtualNetworksClient_CreateOrUpdate R (vNetClient g) (groupName g) (vNetName g)
       (vNetParameters g) sd = (None, se) \<and>
     SubnetsClient_CreateOrUpdate R (subnetClient g) (groupName g) (vNetName g) (subnetName g)
       main_subnet se = (None, sf) \<and>
     SubnetsClient_Get R (subnetClient g) (groupName g) (vNetName g) (subnetName g) [] sf =
       ((subnet, None), sg) \<and>
     AvailabilitySetsClient_CreateOrUpdate R (availSetClient g) (groupName g) ''availSet''
       (main_availSet g) sg = ((availSet, None), sh) \<longrightarrow>
     main R w =
       (Inl (Exit 1),
        w\<lparr>rstate := sh,
          calls := calls w @
            [(Groups_CreateOrUpdate (groupName g) (resourceGroupParameters g), None),
             (Accounts_Create (groupName g) (storageAccountName g) (accountParameters g),
              Some e),
             (PublicIPAddresses_CreateOrUpdate (groupName g) (ipName g) (main_pip g), None),
             (LoadBalancers_CreateOrUpdate (groupName g) (loadBalancerName g) (main_lb g pip),
              None),
             (VirtualNetworks_CreateOrUpdate (groupName g) (vNetName g) (vNetParameters g),
              None),
             (Subnets_CreateOrUpdate (groupName g) (vNetName g) (subnetName g) main_subnet,
              None),
             (Subnets_Get (groupName g) (vNetName g) (subnetName g) [], None),
             (AvailabilitySets_CreateOrUpdate (groupName g) ''availSet'' (main_availSet g),
              None),
             (Accounts_Create_await, Some e)],
          stdout := stdout w @
            [''Creating resource group'' @ nl,
             ''Starting to create storage account...'' @ nl,
             ''Starting to create public IP address...'' @ nl,
             ''... public IP created'' @ nl,
             ''Starting to create load balancer...'' @ nl,
             ''... load balancer created'' @ nl,
             ''Starting to create virtual network...'' @ nl,
             ''... virtual network created'' @ nl,
             ''Starting to create subnet...'' @ nl,
             ''... subnet created'' @ nl,
             ''Creating availability set'' @ nl,
             ''Create Storage Account failed: '' @ Error e]\<rparr>)) \<and>
    (no_failure (calls w) \<longrightarrow>
       ran_without_failure (main R w) \<or> stopped_at_failure (main R w))"
proof -
  have a: "main R w =
       (Inl (Exit 1),
        w\<lparr>rstate := sc,
          calls := calls w @
            [(Groups_CreateOrUpdate (groupName g) (resourceGroupParameters g), None),
             (Accounts_Create (groupName g) (storageAccountName g) (accountParameters g),
              pending),
             (PublicIPAddresses_CreateOrUpdate (groupName g) (ipName g) (main_pip g), Some e)],
          stdout := stdout w @
            [''Creating resource group'' @ nl,
             ''Starting to create storage account...'' @ nl,
             ''Starting to create public IP address...'' @ nl,
             ''CreateOrUpdate Public IP failed: '' @ Error e]\<rparr>)"
    if "globals w = g \<and>
     GroupsClient_CreateOrUpdate R (groupClient g) (groupName g) (resourceGroupParameters g)
       (rstate w) = (None, sa) \<and>
     AccountsClient_Create R (accountClient g) (groupName g) (storageAccountName g)
       (accountParameters g) sa = (pending, sb) \<and>
     PublicIPAddressesClient_CreateOrUpdate R (pipClient g) (groupName g) (ipName g)
       (main_pip g) sb = ((pip, Some e), sc)"
    using that by (simp add: main_def prog_defs)
  have b: "main R w =
       (Inl (Exit 1),
        w\<lparr>rstate := sh,
          calls := calls w @
            [(Groups_CreateOrUpdate (groupName g) (resourceGroupParameters g), None),
             (Accounts_Create (groupName g) (storageAccountName g) (accountParameters g),
              Some e),
             (PublicIPAddresses_CreateOrUpdate (groupName g) (ipName g) (main_pip g), None),
             (LoadBalancers_CreateOrUpdate (groupName g) (loadBalancerName g) (main_lb g pip),
              None),
             (VirtualNetworks_CreateOrUpdate (groupName g) (vNetName g) (vNetParameters g),
              None),
             (Subnets_CreateOrUpdate (groupName g) (vNetName g) (subnetName g) main_subnet,
              None),
             (Subnets_Get (groupName g) (vNetName g) (subnetName g) [], None),
             (AvailabilitySets_CreateOrUpdate (groupName g) ''availSet'' (main_availSet g),
              None),
             (Accounts_Create_await, Some e)],
          stdout := stdout w @
            [''Creating resource group'' @ nl,
             ''Starting to create storage account...'' @ nl,
             ''Starting to create public IP address...'' @ nl,
             ''... public IP created'' @ nl,
             ''Starting to create load balancer...'' @ nl,
             ''... load balancer created'' @ nl,
             ''Starting to create virtual network...'' @ nl,
             ''... virtual network created'' @ nl,
             ''Starting to create subnet...'' @ nl,
             ''... subnet created'' @ nl,
             ''Creating availability set'' @ nl,
             ''Create Storage Account failed: '' @ Error e]\<rparr>)"
    if "globals w = g \<and>
     GroupsClient_CreateOrUpdate R (groupClient g) (groupName g) (resourceGroupParameters g)
       (rstate w) = (None, sa) \<and>
     AccountsClient_Create R (accountClient g) (groupName g) (storageAccountName g)
       (accountParameters g) sa = (Some e, sb) \<and>
     PublicIPAddressesClient_CreateOrUpdate R (pipClient g) (groupName g) (ipName g)
       (main_pip g) sb = ((pip, None), sc) \<and>
     LoadBalancersClient_CreateOrUpdate R (lbClient g) (groupName g) (loadBalancerName g)
       (main_lb g pip) sc = ((lb, None), sd) \<and>
     VirtualNetworksClient_CreateOrUpdate R (vNetClient g) (groupName g) (vNetName g)
       (vNetParameters g) sd = (None, se) \<and>
     SubnetsClient_CreateOrUpdate R (subnetClient g) (groupName g) (vNetName g) (subnetName g)
       main_subnet se = (None, sf) \<and>
     SubnetsClient_Get R (subnetClient g) (groupName g) (vNetName g) (subnetName g) [] sf =
       ((subnet, None), sg) \<and>
     AvailabilitySetsClient_CreateOrUpdate R (availSetClient g) (groupName g) ''availSet''
       (main_availSet g) sg = ((availSet, None), sh)"
    using that by (simp add: main_def prog_defs)
  have c: "ran_without_failure (main R w) \<or> stopped_at_failure (main R w)"
    if "no_failure (calls w)"
    using that by (rule goodD[OF good_main])
  from a b c show ?thesis by blast
qed

theorem main_stops_at_failure_witness:
  "main (mock_remote 2) mock_world =
       (Inl (Exit 1),
        mock_world\<lparr>rstate := 3,
          calls :=
            [(Groups_CreateOrUpdate (groupName mock_pkg) (resourceGroupParameters mock_pkg), None),
             (Accounts_Create (groupName mock_pkg) (storageAccountName mock_pkg)
                (accountParameters mock_pkg), None),
             (PublicIPAddresses_CreateOrUpdate (groupName mock_pkg) (ipName mock_pkg)
                (main_pip mock_pkg), Some (Err ''boom''))],
          stdout :=
            [''Creating resource group'' @ nl,
             ''Starting to create storage account...'' @ nl,
             ''Starting to create public IP address...'' @ nl,
             ''CreateOrUpdate Public IP failed: boom'']\<rparr>) \<and>
   stopped_at_failure (main (mock_remote 2) mock_world) \<and>
   main (mock_remote 1) mock_world =
       (Inl (Exit 1),
        mock_world\<lparr>rstate := 8,
          calls :=
            [(Groups_CreateOrUpdate (groupName mock_pkg) (resourceGroupParameters mock_pkg), None),
             (Accounts_Create (groupName mock_pkg) (storageAccountName mock_pkg)
                (accountParameters mock_pkg), Some (Err ''boom'')),
             (PublicIPAddresses_CreateOrUpdate (groupName mock_pkg) (ipName mock_pkg)
                (main_pip mock_pkg), None),
             (LoadBalancers_CreateOrUpdate (groupName mock_pkg) (loadBalancerName mock_pkg)
                (main_lb mock_pkg mock_pip), None),
             (VirtualNetworks_CreateOrUpdate (groupName mock_pkg) (vNetName mock_pkg)
                (vNetParameters mock_pkg), None),
             (Subnets_CreateOrUpdate (groupName mock_pkg) (vNetName mock_pkg)
                (subnetName mock_pkg) main_subnet, None),
             (Subnets_Get (groupName mock_pkg) (vNetName mock_pkg) (subnetName mock_pkg) [], None),
             (AvailabilitySets_CreateOrUpdate (groupName mock_pkg) ''availSet''
                (main_availSet mock_pkg), None),
             (Accounts_Create_await, Some (Err ''boom''))],
          stdout :=
            [''Creating resource group'' @ nl,
             ''Starting to create storage account...'' @ nl,
             ''Starting to create public IP address...'' @ nl,
             ''... public IP created'' @ nl,
             ''Starting to create load balancer...'' @ nl,
             ''... load balancer created'' @ nl,
             ''Starting to create virtual network...'' @ nl,
             ''... virtual network created'' @ nl,
             ''Starting to create subnet...'' @ nl,
             ''... subnet created'' @ nl,
             ''Creating availability set'' @ nl,
             ''Create Storage Account failed: boom'']\<rparr>) \<and>
   stopped_at_failure (main (mock_remote 1) mock_world)"
proof -
  have a: "main (mock_remote 2) mock_world =
       (Inl (Exit 1),
        mock_world\<lparr>rstate := 3,
          calls :=
            [(Groups_CreateOrUpdate (groupName mock_pkg) (resourceGroupParameters mock_pkg), None),
             (Accounts_Create (groupName mock_pkg) (storageAccountName mock_pkg)
                (accountParameters mock_pkg), None),
             (PublicIPAddresses_CreateOrUpdate (groupName mock_pkg) (ipName mock_pkg)
                (main_pip mock_pkg), Some (Err ''boom''))],
          stdout :=
            [''Creating resource group'' @ nl,
             ''Starting to create storage account...'' @ nl,
             ''Starting to create public IP address...'' @ nl,
             ''CreateOrUpdate Public IP failed: boom'']\<rparr>) \<and>
     stopped_at_failure (main (mock_remote 2) mock_world)"
    using main_stops_at_failure
      [where R = "mock_remote 2" and w = mock_world and g = mock_pkg and sa = 1 and sb = 2 and
        sc = 3 and sd = 4 and se = 5 and sf = 6 and sg = 7 and sh = 8 and pending = None and
        pip = mock_pip and lb = mock_lb and e = "Err ''boom''" and
        subnet = "\<lparr>sn_ID = Some ''/vNet/subnet'', sn_SubnetPropertiesFormat = None\<rparr>" and
        availSet = "\<lparr>avs_ID = Some ''/availSet'', avs_Location = Some ''westus''\<rparr>"]
    by (simp add: mock_remote_simps mock_err_def mock_world_simps stopped_at_failure_def
          no_received_failure_def)
  have b: "main (mock_remote 1) mock_world =
       (Inl (Exit 1),
        mock_world\<lparr>rstate := 8,
          calls :=
            [(Groups_CreateOrUpdate (groupName mock_pkg) (resourceGroupParameters mock_pkg), None),
             (Accounts_Create (groupName mock_pkg) (storageAccountName mock_pkg)
                (accountParameters mock_pkg), Some (Err ''boom'')),
             (PublicIPAddresses_CreateOrUpdate (groupName mock_pkg) (ipName mock_pkg)
                (main_pip mock_pkg), None),
             (LoadBalancers_CreateOrUpdate (groupName mock_pkg) (loadBalancerName mock_pkg)
                (main_lb mock_pkg mock_pip), None),
             (VirtualNetworks_CreateOrUpdate (groupName mock_pkg) (vNetName mock_pkg)
                (vNetParameters mock_pkg), None),
             (Subnets_CreateOrUpdate (groupName mock_pkg) (vNetName mock_pkg)
                (subnetName mock_pkg) main_subnet, None),
             (Subnets_Get (groupName mock_pkg) (vNetName mock_pkg) (subnetName mock_pkg) [], None),
             (AvailabilitySets_CreateOrUpdate (groupName mock_pkg) ''availSet''
                (main_availSet mock_pkg), None),
             (Accounts_Create_await, Some (Err ''boom''))],
          stdout :=
            [''Creating resource group'' @ nl,
             ''Starting to create storage account...'' @ nl,
             ''Starting to create public IP address...'' @ nl,
             ''... public IP created'' @ nl,
             ''Starting to create load balancer...'' @ nl,
             ''... load balancer created'' @ nl,
             ''Starting to create virtual network...'' @ nl,
             ''... virtual network created'' @ nl,
             ''Starting to create subnet...'' @ nl,
             ''... subnet created'' @ nl,
             ''Creating availability set'' @ nl,
             ''Create Storage Account failed: boom'']\<rparr>) \<and>
     stopped_at_failure (main (mock_remote 1) mock_world)"
    using main_stops_at_failure
      [where R = "mock_remote 1" and w = mock_world and g = mock_pkg and sa = 1 and sb = 2 and
        sc = 3 and sd = 4 and se = 5 and sf = 6 and sg = 7 and sh = 8 and pending = None and
        pip = mock_pip and lb = mock_lb and e = "Err ''boom''" and
        subnet = "\<lparr>sn_ID = Some ''/vNet/subnet'', sn_SubnetPropertiesFormat = None\<rparr>" and
        availSet = "\<lparr>avs_ID = Some ''/availSet'', avs_Location = Some ''westus''\<rparr>"]
    by (simp add: mock_remote_simps mock_err_def mock_world_simps stopped_at_failure_def
          no_received_failure_def mock_pkg_def pkg_declared_def main_availSet_def)
  from a b show ?thesis by blast
qed

text \<open>
  C3. In \<^verbatim>\<open>createVM\<close>, when the creation of the network interface is answered with an
  error, \<^verbatim>\<open>createVM\<close> prints \<^verbatim>\<open>Create NIC failed\<close> and returns that error as a value; the
  trace grows by the one failed request, so the machine is never requested and nothing
  is deleted or undone. When the network interface is created and the creation of the
  machine is answered with an error, \<^verbatim>\<open>createVM\<close> prints \<^verbatim>\<open>Create VM failed\<close> and returns
  that error; the trace grows by the two requests and nothing more. In \<^verbatim>\<open>main\<close>, when
  the network interface of VM 1 fails after the earlier steps succeeded, the process
  ends with status 1 and the trace is the nine earlier requests, the availability set
  and the subnet among them, and the failed one: no machine is requested and the
  resource group is not deleted.
\<close>

theorem createVM_failure_returned:
  fixes w :: "'r world"
  shows
   "(globals w = g \<and>
     buildNICparams g subnetID lb natRule = Some nicp \<and>
     InterfacesClient_CreateOrUpdate R (interfaceClient g) (groupName g) (''nic-'' @ vmName) nicp
       (rstate w) = ((nic, Some e), sa) \<longrightarrow>
     createVM R vmName subnetID availSetID ipAddress lb natRule w =
       (Inr (Some e),
        w\<lparr>rstate := sa,
          calls := calls w @
            [(Interfaces_CreateOrUpdate (groupName g) (''nic-'' @ vmName) nicp, Some e)],
          stdout := stdout w @
            [''Starting to create NIC for '' @ sq @ vmName @ sq @ '' machine'' @ nl,
             ''Create NIC failed'' @ nl]\<rparr>)) \<and>
    (globals w = g \<and>
     buildNICparams g subnetID lb natRule = Some nicp \<and>
     InterfacesClient_CreateOrUpdate R (interfaceClient g) (groupName g) (''nic-'' @ vmName) nicp
       (rstate w) = ((nic, None), sa) \<and>
     VirtualMachinesClient_CreateOrUpdate R (vmClient g) (groupName g) vmName
       (buildVMparams g vmName (if_ID nic) availSetID) sa = (Some e, sb) \<longrightarrow>
     createVM R vmName subnetID availSetID ipAddress lb natRule w =
       (Inr (Some e),
        w\<lparr>rstate := sb,
          calls := calls w @
            [(Interfaces_CreateOrUpdate (groupName g) (''nic-'' @ vmName) nicp, None),
             (VirtualMachines_CreateOrUpdate (groupName g) vmName
                (buildVMparams g vmName (if_ID nic) availSetID), Some e)],
          stdout := stdout w @
            [''Starting to create NIC for '' @ sq @ vmName @ sq @ '' machine'' @ nl,
             ''NIC created'' @ nl,
             ''Starting to create machine '' @ sq @ vmName @ sq @ nl,
             ''Create VM failed'' @ nl]\<rparr>)) \<and>
    (globals w = g \<and>
     GroupsClient_CreateOrUpdate R (groupClient g) (groupName g) (resourceGroupParameters g) (rstate w) = (None, sb) \<and>
     AccountsClient_Create R (accountClient g) (groupName g) (storageAccountName g) (accountParameters g) sb = (None, sc) \<and>
     PublicIPAddressesClient_CreateOrUpdate R (pipClient g) (groupName g) (ipName g) (main_pip g) sc = ((pip, None), sd) \<and>
     LoadBalancersClient_CreateOrUpdate R (lbClient g) (groupName g) (loadBalancerName g) (main_lb g pip) sd = ((lb, None), se) \<and>
     VirtualNetworksClient_CreateOrUpdate R (vNetClient g) (groupName g) (vNetName g) (vNetParameters g) se = (None, sf) \<and>
     SubnetsClient_CreateOrUpdate R (subnetClient g) (groupName g) (vNetName g) (subnetName g) main_subnet sf = (None, sg) \<and>
     SubnetsClient_Get R (subnetClient g) (groupName g) (vNetName g) (subnetName g) [] sg = ((subnet, None), sh) \<and>
     AvailabilitySetsClient_CreateOrUpdate R (availSetClient g) (groupName g) ''availSet'' (main_availSet g) sh = ((availSet, None), si) \<and>
     pip_PublicIPAddressPropertiesFormat pip = Some pipf \<and>
     buildNICparams g (sn_ID subnet) lb 0 = Some nicp_a \<and>
     InterfacesClient_CreateOrUpdate R (interfaceClient g) (groupName g) (''nic-'' @ vmName1 g) nicp_a si = ((nic_a, Some e), sj) \<longrightarrow>
     fst (main R w) = Inl (Exit 1) \<and>
     calls (snd (main R w)) = calls w @
        [(Groups_CreateOrUpdate (groupName g) (resourceGroupParameters g), None),
         (Accounts_Create (groupName g) (storageAccountName g) (accountParameters g), None),
         (PublicIPAddresses_CreateOrUpdate (groupName g) (ipName g) (main_pip g), None),
         (LoadBalancers_CreateOrUpdate (groupName g) (loadBalancerName g) (main_lb g pip), None),
         (VirtualNetworks_CreateOrUpdate (groupName g) (vNetName g) (vNetParameters g), None),
         (Subnets_CreateOrUpdate (groupName g) (vNetName g) (subnetName g) main_subnet, None),
         (Subnets_Get (groupName g) (vNetName g) (subnetName g) [], None),
         (AvailabilitySets_CreateOrUpdate (groupName g) ''availSet'' (main_availSet g), None),
         (Accounts_Create_await, None),
         (Interfaces_CreateOrUpdate (groupName g) (''nic-'' @ vmName1 g) nicp_a, Some e)])"
proof (intro conjI impI)
  assume "globals w = g \<and>
     buildNICparams g subnetID lb natRule = Some nicp \<and>
     InterfacesClient_CreateOrUpdate R (interfaceClient g) (groupName g) (''nic-'' @ vmName) nicp
       (rstate w) = ((nic, Some e), sa)"
  then show "createVM R vmName subnetID availSetID ipAddress lb natRule w =
       (Inr (Some e),
        w\<lparr>rstate := sa,
          calls := calls w @
            [(Interfaces_CreateOrUpdate (groupName g) (''nic-'' @ vmName) nicp, Some e)],
          stdout := stdout w @
            [''Starting to create NIC for '' @ sq @ vmName @ sq @ '' machine'' @ nl,
             ''Create NIC failed'' @ nl]\<rparr>)"
    by (simp add: createVM_def prog_defs Let_def)
next
  assume "globals w = g \<and>
     buildNICparams g subnetID lb natRule = Some nicp \<and>
     InterfacesClient_CreateOrUpdate R (interfaceClient g) (groupName g) (''nic-'' @ vmName) nicp
       (rstate w) = ((nic, None), sa) \<and>
     VirtualMachinesClient_CreateOrUpdate R (vmClient g) (groupName g) vmName
       (buildVMparams g vmName (if_ID nic) availSetID) sa = (Some e, sb)"
  then show "createVM R vmName subnetID availSetID ipAddress lb natRule w =
       (Inr (Some e),
        w\<lparr>rstate := sb,
          calls := calls w @
            [(Interfaces_CreateOrUpdate (groupName g) (''nic-'' @ vmName) nicp, None),
             (VirtualMachines_CreateOrUpdate (groupName g) vmName
                (buildVMparams g vmName (if_ID nic) availSetID), Some e)],
          stdout := stdout w @
            [''Starting to create NIC for '' @ sq @ vmName @ sq @ '' machine'' @ nl,
             ''NIC created'' @ nl,
             ''Starting to create machine '' @ sq @ vmName @ sq @ nl,
             ''Create VM failed'' @ nl]\<rparr>)"
    by (simp add: createVM_def prog_defs Let_def)
next
  assume h: "globals w = g \<and>
     GroupsClient_CreateOrUpdate R (groupClient g) (groupName g) (resourceGroupParameters g) (rstate w) = (None, sb) \<and>
     AccountsClient_Create R (accountClient g) (groupName g) (storageAccountName g) (accountParameters g) sb = (None, sc) \<and>
     PublicIPAddressesClient_CreateOrUpdate R (pipClient g) (groupName g) (ipName g) (main_pip g) sc = ((pip, None), sd) \<and>
     LoadBalancersClient_CreateOrUpdate R (lbClient g) (groupName g) (loadBalancerName g) (main_lb g pip) sd = ((lb, None), se) \<and>
     VirtualNetworksClient_CreateOrUpdate R (vNetClient g) (groupName g) (vNetName g) (vNetParameters g) se = (None, sf) \<and>
     SubnetsClient_CreateOrUpdate R (subnetClient g) (groupName g) (vNetName g) (subnetName g) main_subnet sf = (None, sg) \<and>
     SubnetsClient_Get R (subnetClient g) (groupName g) (vNetName g) (subnetName g) [] sg = ((subnet, None), sh) \<and>
     AvailabilitySetsClient_CreateOrUpdate R (availSetClient g) (groupName g) ''availSet'' (main_availSet g) sh = ((availSet, None), si) \<and>
     pip_PublicIPAddressPropertiesFormat pip = Some pipf \<and>
     buildNICparams g (sn_ID subnet) lb 0 = Some nicp_a \<and>
     InterfacesClient_CreateOrUpdate R (interfaceClient g) (groupName g) (''nic-'' @ vmName1 g) nicp_a si = ((nic_a, Some e), sj)"
  then show "fst (main R w) = Inl (Exit 1)"
    by (simp add: main_def createVM_def prog_defs Let_def)
  from h show "calls (snd (main R w)) = calls w @
        [(Groups_CreateOrUpdate (groupName g) (resourceGroupParameters g), None),
         (Accounts_Create (groupName g) (storageAccountName g) (accountParameters g), None),
         (PublicIPAddresses_CreateOrUpdate (groupName g) (ipName g) (main_pip g), None),
         (LoadBalancers_CreateOrUpdate (groupName g) (loadBalancerName g) (main_lb g pip), None),
         (VirtualNetworks_CreateOrUpdate (groupName g) (vNetName g) (vNetParameters g), None),
         (Subnets_CreateOrUpdate (groupName g) (vNetName g) (subnetName g) main_subnet, None),
         (Subnets_Get (groupName g) (vNetName g) (subnetName g) [], None),
         (AvailabilitySets_CreateOrUpdate (groupName g) ''availSet'' (main_availSet g), None),
         (Accounts_Create_await, None),
         (Interfaces_CreateOrUpdate (groupName g) (''nic-'' @ vmName1 g) nicp_a, Some e)]"
    by (simp add: main_def createVM_def prog_defs Let_def)
qed


theorem createVM_failure_returned_witness:
  "createVM (mock_remote 0) ''Web1'' (Some ''/vNet/subnet'') (Some ''/availSet'') (Some ''203.0.113.7'') mock_lb 0 mock_world =
       (Inr (Some (Err ''boom'')),
        mock_world\<lparr>rstate := 1,
          calls :=
            [(Interfaces_CreateOrUpdate (groupName mock_pkg) ''nic-Web1''
                (the (buildNICparams mock_pkg (Some ''/vNet/subnet'') mock_lb 0)), Some (Err ''boom''))],
          stdout :=
            [''Starting to create NIC for '' @ sq @ ''Web1'' @ sq @ '' machine'' @ nl,
             ''Create NIC failed'' @ nl]\<rparr>) \<and>
   createVM (mock_remote 1) ''Web1'' (Some ''/vNet/subnet'') (Some ''/availSet'') (Some ''203.0.113.7'') mock_lb 0 mock_world =
       (Inr (Some (Err ''boom'')),
        mock_world\<lparr>rstate := 2,
          calls :=
            [(Interfaces_CreateOrUpdate (groupName mock_pkg) ''nic-Web1''
                (the (buildNICparams mock_pkg (Some ''/vNet/subnet'') mock_lb 0)), None),
             (VirtualMachines_CreateOrUpdate (groupName mock_pkg) ''Web1''
                (buildVMparams mock_pkg ''Web1'' (Some ''/nic-Web1'') (Some ''/availSet'')),
              Some (Err ''boom''))],
          stdout :=
            [''Starting to create NIC for '' @ sq @ ''Web1'' @ sq @ '' machine'' @ nl,
             ''NIC created'' @ nl,
             ''Starting to create machine '' @ sq @ ''Web1'' @ sq @ nl,
             ''Create VM failed'' @ nl]\<rparr>) \<and>
   fst (main (mock_remote 8) mock_world) = Inl (Exit 1) \<and>
     calls (snd (main (mock_remote 8) mock_world)) =
        [(Groups_CreateOrUpdate (groupName mock_pkg) (resourceGroupParameters mock_pkg), None),
         (Accounts_Create (groupName mock_pkg) (storageAccountName mock_pkg)
            (accountParameters mock_pkg), None),
         (PublicIPAddresses_CreateOrUpdate (groupName mock_pkg) (ipName mock_pkg)
            (main_pip mock_pkg), None),
         (LoadBalancers_CreateOrUpdate (groupName mock_pkg) (loadBalancerName mock_pkg)
            (main_lb mock_pkg mock_pip), None),
         (VirtualNetworks_CreateOrUpdate (groupName mock_pkg) (vNetName mock_pkg)
            (vNetParameters mock_pkg), None),
         (Subnets_CreateOrUpdate (groupName mock_pkg) (vNetName mock_pkg) (subnetName mock_pkg)
            main_subnet, None),
         (Subnets_Get (groupName mock_pkg) (vNetName mock_pkg) (subnetName mock_pkg) [], None),
         (AvailabilitySets_CreateOrUpdate (groupName mock_pkg) ''availSet''
            (main_availSet mock_pkg), None),
         (Accounts_Create_await, None),
         (Interfaces_CreateOrUpdate (groupName mock_pkg) ''nic-Web1''
            (the (buildNICparams mock_pkg (Some ''/vNet/subnet'') mock_lb 0)), Some (Err ''boom''))]"
proof -
  have a: "createVM (mock_remote 0) ''Web1'' (Some ''/vNet/subnet'') (Some ''/availSet'') (Some ''203.0.113.7'') mock_lb 0 mock_world =
       (Inr (Some (Err ''boom'')),
        mock_world\<lparr>rstate := 1,
          calls :=
            [(Interfaces_CreateOrUpdate (groupName mock_pkg) ''nic-Web1''
                (the (buildNICparams mock_pkg (Some ''/vNet/subnet'') mock_lb 0)), Some (Err ''boom''))],
          stdout :=
            [''Starting to create NIC for '' @ sq @ ''Web1'' @ sq @ '' machine'' @ nl,
             ''Create NIC failed'' @ nl]\<rparr>)"
    using createVM_failure_returned
      [where R = "mock_remote 0" and sa = 1 and
        vmName = "''Web1''" and subnetID = "Some ''/vNet/subnet''" and
        availSetID = "Some ''/availSet''" and ipAddress = "Some ''203.0.113.7''" and
        lb = mock_lb and natRule = 0 and w = mock_world and g = mock_pkg and
        nicp = "the (buildNICparams mock_pkg (Some ''/vNet/subnet'') mock_lb 0)" and
        nic = "(the (buildNICparams mock_pkg (Some ''/vNet/subnet'') mock_lb 0))\<lparr>if_ID := Some ''/nic-Web1''\<rparr>" and
        e = "Err ''boom''"]
    by (simp add: mock_remote_simps mock_err_def mock_world_simps mock_pkg_def pkg_declared_def mock_lb_def
          mock_pip_def buildNICparams_def at_index_def buildVMparams_def main_availSet_def)
  have b: "createVM (mock_remote 1) ''Web1'' (Some ''/vNet/subnet'') (Some ''/availSet'') (Some ''203.0.113.7'') mock_lb 0 mock_world =
       (Inr (Some (Err ''boom'')),
        mock_world\<lparr>rstate := 2,
          calls :=
            [(Interfaces_CreateOrUpdate (groupName mock_pkg) ''nic-Web1''
                (the (buildNICparams mock_pkg (Some ''/vNet/subnet'') mock_lb 0)), None),
             (VirtualMachines_CreateOrUpdate (groupName mock_pkg) ''Web1''
                (buildVMparams mock_pkg ''Web1'' (Some ''/nic-Web1'') (Some ''/availSet'')),
              Some (Err ''boom''))],
          stdout :=
            [''Starting to create NIC for '' @ sq @ ''Web1'' @ sq @ '' machine'' @ nl,
             ''NIC created'' @ nl,
             ''Starting to create machine '' @ sq @ ''Web1'' @ sq @ nl,
             ''Create VM failed'' @ nl]\<rparr>)"
    using createVM_failure_returned
      [where R = "mock_remote 1" and sa = 1 and sb = 2 and
        vmName = "''Web1''" and subnetID = "Some ''/vNet/subnet''" and
        availSetID = "Some ''/availSet''" and ipAddress = "Some ''203.0.113.7''" and
        lb = mock_lb and natRule = 0 and w = mock_world and g = mock_pkg and
        nicp = "the (buildNICparams mock_pkg (Some ''/vNet/subnet'') mock_lb 0)" and
        nic = "(the (buildNICparams mock_pkg (Some ''/vNet/subnet'') mock_lb 0))\<lparr>if_ID := Some ''/nic-Web1''\<rparr>" and
        e = "Err ''boom''"]
    by (simp add: mock_remote_simps mock_err_def mock_world_simps mock_pkg_def pkg_declared_def mock_lb_def
          mock_pip_def buildNICparams_def at_index_def buildVMparams_def main_availSet_def)
  have c: "fst (main (mock_remote 8) mock_world) = Inl (Exit 1) \<and>
     calls (snd (main (mock_remote 8) mock_world)) =
        [(Groups_CreateOrUpdate (groupName mock_pkg) (resourceGroupParameters mock_pkg), None),
         (Accounts_Create (groupName mock_pkg) (storageAccountName mock_pkg)
            (accountParameters mock_pkg), None),
         (PublicIPAddresses_CreateOrUpdate (groupName mock_pkg) (ipName mock_pkg)
            (main_pip mock_pkg), None),
         (LoadBalancers_CreateOrUpdate (groupName mock_pkg) (loadBalancerName mock_pkg)
            (main_lb mock_pkg mock_pip), None),
         (VirtualNetworks_CreateOrUpdate (groupName mock_pkg) (vNetName mock_pkg)
            (vNetParameters mock_pkg), None),
         (Subnets_CreateOrUpdate (groupName mock_pkg) (vNetName mock_pkg) (subnetName mock_pkg)
            main_subnet, None),
         (Subnets_Get (groupName mock_pkg) (vNetName mock_pkg) (subnetName mock_pkg) [], None),
         (AvailabilitySets_CreateOrUpdate (groupName mock_pkg) ''availSet''
            (main_availSet mock_pkg), None),
         (Accounts_Create_await, None),
         (Interfaces_CreateOrUpdate (groupName mock_pkg) ''nic-Web1''
            (the (buildNICparams mock_pkg (Some ''/vNet/subnet'') mock_lb 0)), Some (Err ''boom''))]"
    using createVM_failure_returned
      [where R = "mock_remote 8" and
        w = mock_world and
        g = mock_pkg and
        sb = 1 and
        sc = 2 and
        sd = 3 and
        se = 4 and
        sf = 5 and
        sg = 6 and
        sh = 7 and
        si = 8 and
        sj = 9 and
        pip = mock_pip and
        lb = mock_lb and
        subnet = "\<lparr>sn_ID = Some ''/vNet/subnet'', sn_SubnetPropertiesFormat = None\<rparr>" and
        availSet = "\<lparr>avs_ID = Some ''/availSet'', avs_Location = Some ''westus''\<rparr>" and
        pipf = "the (pip_PublicIPAddressPropertiesFormat mock_pip)" and
        nicp_a = "the (buildNICparams mock_pkg (Some ''/vNet/subnet'') mock_lb 0)" and
        nic_a = "(the (buildNICparams mock_pkg (Some ''/vNet/subnet'') mock_lb 0))\<lparr>if_ID := Some ''/nic-Web1''\<rparr>" and
        e = "Err ''boom''"]
    by (simp add: mock_remote_simps mock_err_def mock_world_simps mock_pkg_def pkg_declared_def mock_lb_def
          mock_pip_def buildNICparams_def at_index_def buildVMparams_def main_availSet_def)
  from a b c show ?thesis by blast
qed


subsection \<open>Dereferences without a check\<close>









subsection \<open>Names and credentials\<close>

lemma createVM_first_call:
  fixes w :: "'r world"
  assumes g: "globals w = g" and nicp: "buildNICparams g subnetID lb natRule = Some nicp"
  shows "take (Suc (length (calls w)))
           (calls (snd (createVM R vmName subnetID availSetID ipAddress lb natRule w))) =
         calls w @
           [(Interfaces_CreateOrUpdate (groupName g) (''nic-'' @ vmName) nicp,
             snd (fst (InterfacesClient_CreateOrUpdate R (interfaceClient g) (groupName g)
                         (''nic-'' @ vmName) nicp (rstate w))))]"
proof -
  obtain nic e1 s1 where c1: "InterfacesClient_CreateOrUpdate R (interfaceClient g) (groupName g)
      (''nic-'' @ vmName) nicp (rstate w) = ((nic, e1), s1)"
    by (metis surj_pair)
  obtain e2 s2 where c2: "VirtualMachinesClient_CreateOrUpdate R (vmClient g) (groupName g) vmName
        (buildVMparams g vmName (if_ID nic) availSetID) s1 = (e2, s2)"
    by (metis surj_pair)
  show ?thesis
    using g nicp c1 c2
    by (cases e1; cases e2;
        cases "connect_message vmName (buildVMparams g vmName (if_ID nic) availSetID) ipAddress lb natRule")
       (simp_all add: createVM_def prog_defs Let_def)
qed


text \<open>
  C10. For every VM name, the first request of \<^verbatim>\<open>createVM\<close> creates the network
  interface under the name \<^verbatim>\<open>nic-\<close> followed by the VM name. The machine that
  \<^verbatim>\<open>buildVMparams\<close> defines has the VM name as computer name and, whatever the VM name,
  the administrator \<^verbatim>\<open>notAdmin\<close> with the password \<^verbatim>\<open>Pa$$w0rd1975\<close>. Besides its three
  arguments \<^verbatim>\<open>buildVMparams\<close> reads only the package-level variables \<^verbatim>\<open>westus\<close> and
  \<^verbatim>\<open>storageAccountName\<close>: with these two as declared, which no statement of the program
  changes, the definition is a function of the VM name, the network interface's
  identifier and the availability set's identifier alone.
\<close>

theorem createVM_names_and_credentials:
  fixes w :: "'r world"
  shows
   "(globals w = g \<and> buildNICparams g subnetID lb natRule = Some nicp \<longrightarrow>
       take (Suc (length (calls w)))
           (calls (snd (createVM R vmName subnetID availSetID ipAddress lb natRule w))) =
         calls w @
           [(Interfaces_CreateOrUpdate (groupName g) (''nic-'' @ vmName) nicp,
             snd (fst (InterfacesClient_CreateOrUpdate R (interfaceClient g) (groupName g)
                         (''nic-'' @ vmName) nicp (rstate w))))]) \<and>
    (\<exists>vmp. vm_VirtualMachineProperties (buildVMparams g vmName nicID availSetID) = Some vmp \<and>
       vmp_OsProfile vmp =
         Some \<lparr>osp_ComputerName = Some vmName,
               osp_AdminUsername = Some ''notAdmin'',
               osp_AdminPassword = Some ''Pa$$w0rd1975''\<rparr>) \<and>
    (westus g = westus g' \<and> storageAccountName g = storageAccountName g' \<longrightarrow>
       buildVMparams g vmName nicID availSetID = buildVMparams g' vmName nicID availSetID)"
  using createVM_first_call [of w g subnetID lb natRule nicp R vmName availSetID ipAddress]
  by (simp add: buildVMparams_def)

theorem createVM_names_and_credentials_witness:
  "take 1 (calls (snd (createVM (mock_remote 100) ''Web1'' (Some ''/vNet/subnet'')
                         (Some ''/availSet'') (Some ''203.0.113.7'') mock_lb 0 mock_world))) =
     [(Interfaces_CreateOrUpdate ''your-azure-sample-group'' ''nic-Web1''
         (the (buildNICparams mock_pkg (Some ''/vNet/subnet'') mock_lb 0)), None)] \<and>
   buildVMparams mock_pkg ''Web1'' (Some ''/nic-Web1'') (Some ''/availSet'') =
     buildVMparams pkg_declared ''Web1'' (Some ''/nic-Web1'') (Some ''/availSet'')"
  using createVM_names_and_credentials
    [where w = mock_world and g = mock_pkg and g' = pkg_declared and R = "mock_remote 100" and
      vmName = "''Web1''" and subnetID = "Some ''/vNet/subnet''" and
      availSetID = "Some ''/availSet''" and ipAddress = "Some ''203.0.113.7''" and
      lb = mock_lb and natRule = 0 and nicID = "Some ''/nic-Web1''" and
      nicp = "the (buildNICparams mock_pkg (Some ''/vNet/subnet'') mock_lb 0)"]
  by (simp add: mock_remote_simps mock_err_def mock_world_simps mock_pkg_def pkg_declared_def
        mock_lb_def buildNICparams_def at_index_def)

section \<open>The package-level state\<close>

lemma distinct_package_locations: "distinct package_locations"
  by (simp add: package_locations_def)

lemma init_run:
  assumes "utils_GetAuthorizer E = Inr (a, None)"
    and "utils_GetEnvVarOrExit E ''AZURE_SUBSCRIPTION_ID'' = Inr v"
  shows "init E (process_start s) =
     (Inr (),
      (process_start s)
        \<lparr>globals := pkg_declared
           \<lparr>subscriptionID := v,
            groupClient := sample_client E ''resources.NewGroupsClient'' v a,
            lbClient := sample_client E ''network.NewLoadBalancersClient'' v a,
            vNetClient := sample_client E ''network.NewVirtualNetworksClient'' v a,
            subnetClient := sample_client E ''network.NewSubnetsClient'' v a,
            pipClient := sample_client E ''network.NewPublicIPAddressesClient'' v a,
            interfaceClient := sample_client E ''network.NewInterfacesClient'' v a,
            availSetClient := sample_client E ''compute.NewAvailabilitySetsClient'' v a,
            accountClient := sample_client E ''storage.NewAccountsClient'' v a,
            vmClient := sample_client E ''compute.NewVirtualMachinesClient'' v a\<rparr>,
         writes := package_locations\<rparr>)"
  using assms
  by (simp add: init_def createClients_def prog_defs assign_def process_start_def Let_def
        sample_client_def package_locations_def)

lemma init_writes_distinct: "distinct (writes (snd (init E (process_start s))))"
proof (cases "utils_GetAuthorizer E")
  case (Inl x)
  then show ?thesis
    by (cases x) (simp add: init_def library_exit_def process_start_def)
next
  case (Inr y)
  obtain a err where y: "y = (a, err)" by (cases y)
  show ?thesis
  proof (cases err)
    case (Some e)
    then show ?thesis using Inr y
      by (simp add: init_def prog_defs process_start_def)
  next
    case None
    note n = None
    show ?thesis
    proof (cases "utils_GetEnvVarOrExit E ''AZURE_SUBSCRIPTION_ID''")
      case (Inl x)
      then show ?thesis using Inr y n
        by (cases x) (simp add: init_def prog_defs library_exit_def process_start_def)
    next
      case (Inr v)
      then show ?thesis
        using \<open>utils_GetAuthorizer E = Inr y\<close> y n init_run[of E a v s]
          distinct_package_locations
        by simp
    qed
  qed
qed

lemma frame_run:
  "globals (snd (run E R s)) = globals (snd (init E (process_start s))) \<and>
   writes (snd (run E R s)) = writes (snd (init E (process_start s)))"
proof (cases "init E (process_start s)")
  case (Pair r w')
  show ?thesis
  proof (cases r)
    case (Inl e)
    then show ?thesis using Pair by (simp add: run_def thn_def bnd_def)
  next
    case (Inr u)
    then show ?thesis using Pair frame_main[of R]
      by (simp add: run_def thn_def bnd_def frame_def)
  qed
qed


text \<open>
  C8. When the credential and the subscription id are available, \<^verbatim>\<open>init\<close> returns with
  the subscription id set and each of the nine client handles holding the constructed
  client with the authorizer and the sample's user-agent tag; the locations it has
  written are the subscription id and, per handle, the variable, its authorizer and its
  user agent, each exactly once (the list has no repetition, also when \<^verbatim>\<open>init\<close> ends the
  process early). \<^verbatim>\<open>main\<close> and \<^verbatim>\<open>createVM\<close> write no package-level location and leave
  every package-level variable as it was, however they end; so at the end of the
  process the package-level state is the one \<^verbatim>\<open>init\<close> left. The builders are functions of
  the package-level state and write nothing.
\<close>

theorem package_state_written_once:
  fixes w :: "'r world" and s :: 'r
  shows
   "(utils_GetAuthorizer E = Inr (a, None) \<and>
     utils_GetEnvVarOrExit E ''AZURE_SUBSCRIPTION_ID'' = Inr v \<longrightarrow>
     init E (process_start s) =
       (Inr (),
        (process_start s)
          \<lparr>globals := pkg_declared
             \<lparr>subscriptionID := v,
              groupClient := sample_client E ''resources.NewGroupsClient'' v a,
              lbClient := sample_client E ''network.NewLoadBalancersClient'' v a,
              vNetClient := sample_client E ''network.NewVirtualNetworksClient'' v a,
              subnetClient := sample_client E ''network.NewSubnetsClient'' v a,
              pipClient := sample_client E ''network.NewPublicIPAddressesClient'' v a,
              interfaceClient := sample_client E ''network.NewInterfacesClient'' v a,
              availSetClient := sample_client E ''compute.NewAvailabilitySetsClient'' v a,
              accountClient := sample_client E ''storage.NewAccountsClient'' v a,
              vmClient := sample_client E ''compute.NewVirtualMachinesClient'' v a\<rparr>,
           writes := package_locations\<rparr>)) \<and>
    distinct package_locations \<and>
    distinct (writes (snd (init E (process_start s)))) \<and>
    globals (snd (main R w)) = globals w \<and>
    writes (snd (main R w)) = writes w \<and>
    globals (snd (createVM R vmName subnetID availSetID ipAddress lb natRule w)) = globals w \<and>
    writes (snd (createVM R vmName subnetID availSetID ipAddress lb natRule w)) = writes w \<and>
    globals (snd (run E R s)) = globals (snd (init E (process_start s))) \<and>
    writes (snd (run E R s)) = writes (snd (init E (process_start s)))"
  using init_run [of E a v s] distinct_package_locations init_writes_distinct [of E s]
    frame_main [of R] frame_createVM [of R vmName subnetID availSetID ipAddress lb natRule]
    frame_run [of E R s]
  unfolding frame_def by blast

theorem package_state_written_once_witness:
  "init mock_env (process_start (0::nat)) =
       (Inr (),
        (process_start 0)
          \<lparr>globals := pkg_declared
             \<lparr>subscriptionID := ''sub123'',
              groupClient :=
                sample_client mock_env ''resources.NewGroupsClient'' ''sub123''
                  (Some (BearerAuthorizer ''token'')),
              lbClient :=
                sample_client mock_env ''network.NewLoadBalancersClient'' ''sub123''
                  (Some (BearerAuthorizer ''token'')),
              vNetClient :=
                sample_client mock_env ''network.NewVirtualNetworksClient'' ''sub123''
                  (Some (BearerAuthorizer ''token'')),
              subnetClient :=
                sample_client mock_env ''network.NewSubnetsClient'' ''sub123''
                  (Some (BearerAuthorizer ''token'')),
              pipClient :=
                sample_client mock_env ''network.NewPublicIPAddressesClient'' ''sub123''
                  (Some (BearerAuthorizer ''token'')),
              interfaceClient :=
                sample_client mock_env ''network.NewInterfacesClient'' ''sub123''
                  (Some (BearerAuthorizer ''token'')),
              availSetClient :=
                sample_client mock_env ''compute.NewAvailabilitySetsClient'' ''sub123''
                  (Some (BearerAuthorizer ''token'')),
              accountClient :=
                sample_client mock_env ''storage.NewAccountsClient'' ''sub123''
                  (Some (BearerAuthorizer ''token'')),
              vmClient :=
                sample_client mock_env ''compute.NewVirtualMachinesClient'' ''sub123''
                  (Some (BearerAuthorizer ''token''))\<rparr>,
           writes := package_locations\<rparr>) \<and>
   sample_client mock_env ''resources.NewGroupsClient'' ''sub123''
       (Some (BearerAuthorizer ''token'')) =
     \<lparr>cl_SubscriptionID = ''sub123'', cl_Authorizer = Some (BearerAuthorizer ''token''),
      cl_UserAgent = ''Go-SDK resources.NewGroupsClient sample/0006/0a1b2c3''\<rparr> \<and>
   globals (snd (run mock_env (mock_remote 100) 0)) =
     globals (snd (init mock_env (process_start (0::nat))))"
  using package_state_written_once
    [where E = mock_env and a = "Some (BearerAuthorizer ''token'')" and v = "''sub123''" and
      s = "0::nat" and R = "mock_remote 100" and w = mock_world and vmName = "''Web1''" and 
      subnetID = None and availSetID = None and ipAddress = None and lb = mock_lb and natRule = 0]
  by (simp add: mock_env_def sample_client_def NewClient_def AddToUserAgent_def)

end
